theory Spec2Isabelle
  imports Main
begin

section \<open>The driver-side handles (libsigrok)\<close>

text \<open>
  The device session of \<^verbatim>\<open>src/devices/hardwaredevice.cpp\<close> is built on handles of the
  driver library: a device handle with its identity strings, its capability keys, its
  channels and its channel groups. They are plain data here.
\<close>

datatype config_key =
    SR_CONF_POWER_SUPPLY
  | SR_CONF_ELECTRONIC_LOAD
  | SR_CONF_MULTIMETER
  | SR_CONF_DEMO_DEV
  | SR_CONF_ENABLED
  | SR_CONF_VOLTAGE_TARGET
  | SR_CONF_CURRENT_LIMIT
  | SR_CONF_OVER_TEMPERATURE_PROTECTION
  | SR_CONF_OVER_TEMPERATURE_PROTECTION_ACTIVE
  | SR_CONF_OVER_VOLTAGE_PROTECTION_ENABLED
  | SR_CONF_OVER_VOLTAGE_PROTECTION_ACTIVE
  | SR_CONF_OVER_VOLTAGE_PROTECTION_THRESHOLD
  | SR_CONF_OVER_CURRENT_PROTECTION_ENABLED
  | SR_CONF_OVER_CURRENT_PROTECTION_ACTIVE
  | SR_CONF_OVER_CURRENT_PROTECTION_THRESHOLD
  | SR_CONF_UNDER_VOLTAGE_CONDITION
  | SR_CONF_UNDER_VOLTAGE_CONDITION_ACTIVE
  | SR_CONF_UNDER_VOLTAGE_CONDITION_THRESHOLD
  | SR_CONF_OTHER nat

text \<open>
  The driver's channel type is an integer id; the session switches on
  \<^verbatim>\<open>SR_CHANNEL_LOGIC\<close> and \<^verbatim>\<open>SR_CHANNEL_ANALOG\<close> and has a default branch for every
  other id.
\<close>

datatype channel_type = SR_CHANNEL_LOGIC | SR_CHANNEL_ANALOG | SR_CHANNEL_OTHER int

record sr_channel =
  chan_index :: nat
  chan_type :: channel_type
  chan_name :: string

record sr_channel_group =
  cg_name :: string
  cg_channels :: "sr_channel list"

record sr_device =
  vendor :: string
  model :: string
  version :: string
  serial_number :: string
  connection_id :: string
  config_keys :: "config_key list"
  channels :: "sr_channel list"
  channel_groups :: "(string \<times> sr_channel_group) list"

section \<open>Naming\<close>

text \<open>
  \<^verbatim>\<open>HardwareDevice::full_name\<close> and \<^verbatim>\<open>HardwareDevice::short_name\<close> read the identity
  strings of the driver handle only. Each block of the source appends the field, then the
  current separator, and only then sets the separator to one space; the connection id
  block appends the separator first.
\<close>

definition append_field :: "string \<Rightarrow> string \<times> string \<Rightarrow> string \<times> string" where
  "append_field field ns =
     (case ns of (name, sep) \<Rightarrow>
        if length field > 0 then (name @ field @ sep, '' '') else (name, sep))"

definition append_connection_id :: "string \<Rightarrow> string \<times> string \<Rightarrow> string" where
  "append_connection_id conn ns =
     (case ns of (name, sep) \<Rightarrow>
        if length conn > 0 then name @ sep @ ''('' @ conn @ '')'' else name)"

definition full_name :: "sr_device \<Rightarrow> string" where
  "full_name sr_dev =
     (let ns = ('''', '''');
          ns = append_field (vendor sr_dev) ns;
          ns = append_field (model sr_dev) ns;
          ns = append_field (version sr_dev) ns;
          ns = append_field (serial_number sr_dev) ns
      in append_connection_id (connection_id sr_dev) ns)"

definition short_name :: "sr_device \<Rightarrow> string" where
  "short_name sr_dev =
     (let ns = ('''', '''');
          ns = append_field (vendor sr_dev) ns;
          ns = append_field (model sr_dev) ns
      in append_connection_id (connection_id sr_dev) ns)"

section \<open>Signals and their buffers\<close>

text \<open>
  An \<^verbatim>\<open>AnalogData\<close> object is shared by pointer, so the objects live in a store: a list,
  the address of an object being its position. \<^verbatim>\<open>make_shared<data::AnalogData>()\<close>
  appends a fresh object. The class itself is not part of the sources at hand: a field that
  no setter has written is \<open>None\<close>.
\<close>

datatype sr_quantity = VOLTAGE | CURRENT | FREQUENCY | TIME

datatype sr_unit = VOLT | AMPERE | HERTZ | SECOND

record analog_data =
  ad_fixed_quantity :: "bool option"
  ad_quantity :: "sr_quantity option"
  ad_unit :: "sr_unit option"

type_synonym addr = nat

definition new_analog_data :: analog_data where
  "new_analog_data = \<lparr>ad_fixed_quantity = None, ad_quantity = None, ad_unit = None\<rparr>"

definition set_fixed_quantity :: "bool \<Rightarrow> analog_data \<Rightarrow> analog_data" where
  "set_fixed_quantity b a = a\<lparr>ad_fixed_quantity := Some b\<rparr>"

definition set_quantity :: "sr_quantity \<Rightarrow> analog_data \<Rightarrow> analog_data" where
  "set_quantity q a = a\<lparr>ad_quantity := Some q\<rparr>"

definition set_unit :: "sr_unit \<Rightarrow> analog_data \<Rightarrow> analog_data" where
  "set_unit u a = a\<lparr>ad_unit := Some u\<rparr>"

text \<open>
  A signal holds its channel, its internal name, the fixed-quantity flag it was built with,
  and two pointers into the store: its time buffer and its value buffer, both null until
  set. The wall-clock start time that \<^verbatim>\<open>init_signal\<close> stamps on a signal is left out.
\<close>

record base_signal =
  sig_channel :: sr_channel
  internal_name :: string
  sig_fixed_mq :: bool
  time_data :: "addr option"
  data :: "addr option"

text \<open>
  Modelled from the spec: the constructor of \<^verbatim>\<open>data::BaseSignal\<close>, whose class is not among
  the sources. The spec has a signal derived from exactly one channel and classified by
  the channel's internal short name; the signal's internal name is the channel's name.
\<close>

definition BaseSignal :: "sr_channel \<Rightarrow> bool \<Rightarrow> base_signal" where
  "BaseSignal sr_ch fixed_mq =
     \<lparr>sig_channel = sr_ch, internal_name = chan_name sr_ch, sig_fixed_mq = fixed_mq,
      time_data = None, data = None\<rparr>"

definition set_time_data :: "addr \<Rightarrow> base_signal \<Rightarrow> base_signal" where
  "set_time_data t s = s\<lparr>time_data := Some t\<rparr>"

definition set_data :: "addr \<Rightarrow> base_signal \<Rightarrow> base_signal" where
  "set_data a s = s\<lparr>data := Some a\<rparr>"

definition startsWith :: "string \<Rightarrow> string \<Rightarrow> bool" where
  "startsWith s p = (take (length p) s = p)"

section \<open>The device session\<close>

datatype device_type = POWER_SUPPLY | ELECTRONIC_LOAD | MULTIMETER | DEMO_DEV | UNKNOWN

datatype aquisition_state = Stopped | Running

text \<open>
  A configurable is built either from a channel group or from the whole device handle.
\<close>

datatype configurable =
    Configurable_group sr_channel_group
  | Configurable_device sr_device

text \<open>
  What the session does to its collaborators (the driver handle, the driver session, the
  acquisition thread, the error handler passed to \<^verbatim>\<open>open\<close>) is recorded as a trace of
  events, oldest first. A call of the error handler is recorded with its message and with
  the acquisition state at the moment of the call.
\<close>

datatype event =
    SrDeviceOpen
  | SrDeviceClose
  | SessionAddDevice
  | SessionRemoveDevices
  | SessionAddDatafeedCallback
  | SessionRemoveDatafeedCallbacks
  | SessionStart
  | SessionRun
  | SessionStop
  | ThreadSpawn
  | ThreadJoin
  | FreeUnusedMemory
  | ErrorHandler string aquisition_state

text \<open>
  The members of the session carry the source's names without the trailing underscore (the
  handle \<^verbatim>\<open>sr_device_\<close> is \<open>sr_device_m\<close>, the tag \<^verbatim>\<open>type_\<close> is \<open>dev_type\<close>). The getters
  \<^verbatim>\<open>voltage_signal()\<close>, \<^verbatim>\<open>current_signal()\<close>, \<^verbatim>\<open>measurement_signal()\<close>,
  \<^verbatim>\<open>all_signals()\<close>, \<^verbatim>\<open>channel_group_name_signals_map()\<close> and \<^verbatim>\<open>configurables()\<close>
  return their member unchanged: they are the selectors of the record.
\<close>

record hardware_device =
  sr_device_m :: sr_device
  dev_type :: device_type
  device_open :: bool
  aquisition_state :: aquisition_state
  aquisition_thread_joinable :: bool
  out_of_memory :: bool
  store :: "analog_data list"
  all_signals :: "base_signal list"
  signal_name_map :: "string \<rightharpoonup> base_signal"
  sr_channel_signal_map :: "sr_channel \<rightharpoonup> base_signal"
  voltage_signal :: "base_signal option"
  current_signal :: "base_signal option"
  measurement_signal :: "base_signal option"
  configurables :: "configurable list"
  sr_channel_group_name_map :: "string \<rightharpoonup> sr_channel_group"
  channel_group_name_signals_map :: "string \<rightharpoonup> base_signal list"
  trace :: "event list"

text \<open>
  Modelled from the spec: the acquisition state a new session starts in. The member is
  declared and initialised by the base class \<^verbatim>\<open>Device\<close>, which is not among the sources; the
  spec's lifecycle begins Closed and reaches Open(Stopped) and Open(Running) from there.
  The type tag is written by every branch of the constructor before it is read.
\<close>

definition new_device :: "sr_device \<Rightarrow> hardware_device" where
  "new_device sr_dev =
     \<lparr>sr_device_m = sr_dev, dev_type = UNKNOWN, device_open = False,
      aquisition_state = Stopped, aquisition_thread_joinable = False,
      out_of_memory = False, store = [], all_signals = [],
      signal_name_map = Map.empty, sr_channel_signal_map = Map.empty,
      voltage_signal = None, current_signal = None, measurement_signal = None,
      configurables = [], sr_channel_group_name_map = Map.empty,
      channel_group_name_signals_map = Map.empty, trace = []\<rparr>"

subsection \<open>Construction: device type, signals, configurables\<close>

text \<open>
  \<^verbatim>\<open>assert\<close> aborts construction when its condition is false (a build with assertions
  on). A string literal used as a condition is a non-null pointer, hence true.
\<close>

datatype ctor_error = AssertionFailed

definition c_assert :: "bool \<Rightarrow> ctor_error + unit" where
  "c_assert c = (if c then Inr () else Inl AssertionFailed)"

definition literal_condition :: "string \<Rightarrow> bool" where
  "literal_condition s = True"

text \<open>
  \<^verbatim>\<open>std::map::insert\<close> keeps the entry of a key that is already present.
\<close>

definition map_insert :: "'k \<Rightarrow> 'v \<Rightarrow> ('k \<rightharpoonup> 'v) \<Rightarrow> ('k \<rightharpoonup> 'v)" where
  "map_insert k v m = (if m k = None then m(k \<mapsto> v) else m)"

text \<open>
  A new \<^verbatim>\<open>AnalogData\<close> enters the store with the contents its setters give it: in the
  source the setters run right after \<^verbatim>\<open>make_shared\<close>, before the pointer is handed on.
\<close>

definition make_shared_analog :: "analog_data \<Rightarrow> hardware_device \<Rightarrow> addr \<times> hardware_device" where
  "make_shared_analog a d = (length (store d), d\<lparr>store := store d @ [a]\<rparr>)"

definition init_time_data :: "hardware_device \<Rightarrow> addr \<times> hardware_device" where
  "init_time_data d =
     (let time_data = new_analog_data;
          time_data = set_fixed_quantity True time_data;
          time_data = set_quantity TIME time_data;
          time_data = set_unit SECOND time_data
      in make_shared_analog time_data d)"

text \<open>
  The constructor's choice of device type (lines 80 to 105): the type tag, the common time
  buffer (null, or one new buffer for an electronic load) and the fixed-quantity flag.
\<close>

definition set_device_options ::
  "config_key list \<Rightarrow> hardware_device \<Rightarrow> ctor_error + (addr option \<times> bool \<times> hardware_device)" where
  "set_device_options sr_keys d =
     (if SR_CONF_POWER_SUPPLY \<in> set sr_keys then
        Inr (None, True, d\<lparr>dev_type := POWER_SUPPLY\<rparr>)
      else if SR_CONF_ELECTRONIC_LOAD \<in> set sr_keys then
        (case init_time_data (d\<lparr>dev_type := ELECTRONIC_LOAD\<rparr>) of
           (t, d') \<Rightarrow> Inr (Some t, True, d'))
      else if SR_CONF_MULTIMETER \<in> set sr_keys then
        Inr (None, False, d\<lparr>dev_type := MULTIMETER\<rparr>)
      else if SR_CONF_DEMO_DEV \<in> set sr_keys then
        Inr (None, False, d\<lparr>dev_type := DEMO_DEV\<rparr>)
      else
        (case c_assert (literal_condition ''Unknown device'') of
           Inl e \<Rightarrow> Inl e
         | Inr u \<Rightarrow> Inr (None, False, d\<lparr>dev_type := UNKNOWN\<rparr>)))"

text \<open>
  The value buffer of a new signal, by the signal's internal name (lines 355 to 380), and
  the canonical signals of the device (lines 392 to 399).
\<close>

definition init_signal_data :: "string \<Rightarrow> bool \<Rightarrow> analog_data" where
  "init_signal_data name fixed_mq =
     (let data = new_analog_data in
      if startsWith name ''V'' then
        set_unit VOLT (set_quantity VOLTAGE (set_fixed_quantity fixed_mq data))
      else if startsWith name ''I'' then
        set_unit AMPERE (set_quantity CURRENT (set_fixed_quantity fixed_mq data))
      else if startsWith name ''F'' then
        set_unit HERTZ (set_quantity FREQUENCY (set_fixed_quantity fixed_mq data))
      else if name = ''P1'' then
        set_fixed_quantity fixed_mq data
      else if startsWith name ''A'' then
        set_unit VOLT (set_quantity VOLTAGE (set_fixed_quantity fixed_mq data))
      else data)"

definition set_canonical_signals :: "base_signal \<Rightarrow> hardware_device \<Rightarrow> hardware_device" where
  "set_canonical_signals signal d =
     (if startsWith (internal_name signal) ''V'' \<and> voltage_signal d = None then
        d\<lparr>voltage_signal := Some signal\<rparr>
      else if startsWith (internal_name signal) ''I'' \<and> current_signal d = None then
        d\<lparr>current_signal := Some signal\<rparr>
      else if internal_name signal = ''P1'' \<and> measurement_signal d = None then
        d\<lparr>measurement_signal := Some signal\<rparr>
      else if internal_name signal = ''A1'' \<and> measurement_signal d = None then
        d\<lparr>measurement_signal := Some signal\<rparr>
      else d)"

definition init_signal ::
  "sr_channel \<Rightarrow> addr option \<Rightarrow> bool \<Rightarrow> hardware_device
     \<Rightarrow> ctor_error + (base_signal option \<times> hardware_device)" where
  "init_signal sr_ch common_time_data fixed_mq d =
     (case chan_type sr_ch of
        SR_CHANNEL_LOGIC \<Rightarrow> Inr (None, d)
      | SR_CHANNEL_ANALOG \<Rightarrow>
          (let signal = BaseSignal sr_ch fixed_mq;
               (t, d) = (case common_time_data of
                           Some c \<Rightarrow> (c, d)
                         | None \<Rightarrow> init_time_data d);
               signal = set_time_data t signal;
               (a, d) = make_shared_analog (init_signal_data (internal_name signal) fixed_mq) d;
               signal = set_data a signal;
               d = d\<lparr>all_signals := all_signals d @ [signal],
                     signal_name_map :=
                       map_insert (internal_name signal) signal (signal_name_map d),
                     sr_channel_signal_map :=
                       map_insert sr_ch signal (sr_channel_signal_map d)\<rparr>
           in Inr (Some signal, set_canonical_signals signal d))
      | SR_CHANNEL_OTHER i \<Rightarrow>
          (case c_assert False of
             Inl e \<Rightarrow> Inl e
           | Inr u \<Rightarrow> Inr (None, d)))"

fun init_signals ::
  "sr_channel list \<Rightarrow> addr option \<Rightarrow> bool \<Rightarrow> hardware_device \<Rightarrow> ctor_error + hardware_device" where
  "init_signals [] common_time_data fixed_mq d = Inr d"
| "init_signals (sr_ch # rest) common_time_data fixed_mq d =
     (case init_signal sr_ch common_time_data fixed_mq d of
        Inl e \<Rightarrow> Inl e
      | Inr (signal, d') \<Rightarrow> init_signals rest common_time_data fixed_mq d')"

text \<open>
  The channel groups (lines 114 to 137). \<^verbatim>\<open>channel_groups()\<close> is a map from names to
  groups; the list has its entries in the map's order.
\<close>

definition add_channel_group :: "sr_channel_group \<Rightarrow> hardware_device \<Rightarrow> hardware_device" where
  "add_channel_group sr_cg d =
     (let cg_signals = List.map_filter (sr_channel_signal_map d) (cg_channels sr_cg) in
      d\<lparr>configurables := configurables d @ [Configurable_group sr_cg],
        sr_channel_group_name_map :=
          map_insert (cg_name sr_cg) sr_cg (sr_channel_group_name_map d),
        channel_group_name_signals_map :=
          map_insert (cg_name sr_cg) cg_signals (channel_group_name_signals_map d)\<rparr>)"

fun add_channel_groups ::
  "(string \<times> sr_channel_group) list \<Rightarrow> hardware_device \<Rightarrow> hardware_device" where
  "add_channel_groups [] d = d"
| "add_channel_groups (sr_cg_pair # rest) d =
     add_channel_groups rest (add_channel_group (snd sr_cg_pair) d)"

definition init_configurables ::
  "(string \<times> sr_channel_group) list \<Rightarrow> hardware_device \<Rightarrow> hardware_device" where
  "init_configurables sr_channel_groups d =
     (if length sr_channel_groups > 0 then add_channel_groups sr_channel_groups d
      else d\<lparr>configurables := configurables d @ [Configurable_device (sr_device_m d)]\<rparr>)"

definition HardwareDevice :: "sr_device \<Rightarrow> ctor_error + hardware_device" where
  "HardwareDevice sr_dev =
     (case set_device_options (config_keys sr_dev) (new_device sr_dev) of
        Inl e \<Rightarrow> Inl e
      | Inr (common_time_data, fixed_mq, d) \<Rightarrow>
          (case init_signals (channels sr_dev) common_time_data fixed_mq d of
             Inl e \<Rightarrow> Inl e
           | Inr d' \<Rightarrow> Inr (init_configurables (channel_groups sr_dev) d')))"

subsection \<open>Reading a device\<close>

text \<open>
  Reading a signal's buffers through its pointers, and the time buffers of the store (an
  object is a time buffer when its quantity is \<open>TIME\<close>; only \<^verbatim>\<open>init_time_data\<close> makes
  such objects).
\<close>

definition signal_data :: "hardware_device \<Rightarrow> base_signal \<Rightarrow> analog_data option" where
  "signal_data d s =
     (case data s of
        None \<Rightarrow> None
      | Some a \<Rightarrow> if a < length (store d) then Some (store d ! a) else None)"

definition signal_quantity :: "hardware_device \<Rightarrow> base_signal \<Rightarrow> sr_quantity option" where
  "signal_quantity d s = (case signal_data d s of None \<Rightarrow> None | Some a \<Rightarrow> ad_quantity a)"

definition signal_unit :: "hardware_device \<Rightarrow> base_signal \<Rightarrow> sr_unit option" where
  "signal_unit d s = (case signal_data d s of None \<Rightarrow> None | Some a \<Rightarrow> ad_unit a)"

definition time_buffers :: "hardware_device \<Rightarrow> addr list" where
  "time_buffers d =
     filter (\<lambda>a. ad_quantity (store d ! a) = Some TIME) [0..<length (store d)]"

definition analog_channels :: "sr_device \<Rightarrow> sr_channel list" where
  "analog_channels sr_dev = filter (\<lambda>c. chan_type c = SR_CHANNEL_ANALOG) (channels sr_dev)"

section \<open>Lifecycle: open, close and the acquisition task\<close>

text \<open>
  The driver is outside the sources; what it does in a call is a parameter of the model.
  \<^verbatim>\<open>open\<close> takes the error (if any) that the driver handle's open raises. The task takes
  the error (if any) raised by the session's start, and the outcome of the session's run
  loop: the error it raises (if any), and whether packet handling inside the run loop
  flagged an out-of-memory condition (the packet callback \<^verbatim>\<open>data_feed_in\<close> is not among
  the sources). The model covers the exceptions the source catches, for a callable error
  handler (the task asserts that). \<^verbatim>\<open>open\<close> spawns the task as a thread; here the task is
  a function of its own, applied to the state it finds.
\<close>

record sr_run_outcome =
  run_error :: "string option"
  run_out_of_memory :: bool

definition log_event :: "event \<Rightarrow> hardware_device \<Rightarrow> hardware_device" where
  "log_event ev d = d\<lparr>trace := trace d @ [ev]\<rparr>"

definition error_handler :: "string \<Rightarrow> hardware_device \<Rightarrow> hardware_device" where
  "error_handler msg d = log_event (ErrorHandler msg (aquisition_state d)) d"

definition close :: "hardware_device \<Rightarrow> hardware_device" where
  "close d =
     (if \<not> device_open d then d
      else
        (let d = log_event SessionRemoveDatafeedCallbacks d;
             d = (if aquisition_state d \<noteq> Stopped then
                    (log_event SessionStop d)\<lparr>aquisition_state := Stopped\<rparr>
                  else d);
             d = (if aquisition_thread_joinable d then
                    (log_event ThreadJoin d)\<lparr>aquisition_thread_joinable := False\<rparr>
                  else d);
             d = log_event SessionRemoveDevices d;
             d = log_event SrDeviceClose d
         in d\<lparr>device_open := False\<rparr>))"

text \<open>
  The result of \<^verbatim>\<open>open\<close> is the exception it throws to its caller (if any) and the state
  it leaves.
\<close>

definition "open" :: "string option \<Rightarrow> hardware_device \<Rightarrow> string option \<times> hardware_device" where
  "open sr_open_error d =
     (let d = (if device_open d then close d else d);
          d = log_event SrDeviceOpen d
      in case sr_open_error of
           Some e \<Rightarrow> (Some e, d)
         | None \<Rightarrow>
             (let d = log_event SessionAddDevice d;
                  d = log_event SessionAddDatafeedCallback d;
                  d = d\<lparr>device_open := True\<rparr>;
                  d = (log_event ThreadSpawn d)\<lparr>aquisition_thread_joinable := True\<rparr>;
                  d = d\<lparr>aquisition_state := Running\<rparr>
              in (None, d)))"

definition out_of_memory_message :: string where
  "out_of_memory_message = ''Out of memory, acquisition stopped.''"

definition aquisition_thread_proc ::
  "string option \<Rightarrow> sr_run_outcome \<Rightarrow> hardware_device \<Rightarrow> hardware_device" where
  "aquisition_thread_proc sr_start_error sr_run d =
     (let d = d\<lparr>out_of_memory := False\<rparr>;
          d = log_event SessionStart d
      in case sr_start_error of
           Some e \<Rightarrow> error_handler e d
         | None \<Rightarrow>
             (let d = d\<lparr>aquisition_state := Running\<rparr>;
                  d = log_event SessionRun d;
                  d = (if run_out_of_memory sr_run then d\<lparr>out_of_memory := True\<rparr> else d)
              in case run_error sr_run of
                   Some e \<Rightarrow> (error_handler e d)\<lparr>aquisition_state := Stopped\<rparr>
                 | None \<Rightarrow>
                     (let d = d\<lparr>aquisition_state := Stopped\<rparr>;
                          d = log_event FreeUnusedMemory d
                      in if out_of_memory d then error_handler out_of_memory_message d
                         else d)))"

text \<open>
  The events a step added to the trace.
\<close>

definition new_events :: "hardware_device \<Rightarrow> hardware_device \<Rightarrow> event list" where
  "new_events d d' = drop (length (trace d)) (trace d')"

fun is_error_report :: "event \<Rightarrow> bool" where
  "is_error_report (ErrorHandler msg st) = True"
| "is_error_report ev = False"

section \<open>Metadata packets\<close>

text \<open>
  A metadata packet is a map from configuration keys to variant values; the list has its
  entries in the map's order. Of the variant only the boolean and the double matter; the
  payload type of a double is a parameter. The two getters of the variant library return
  false and zero on a variant of another type.
\<close>

datatype 'd gvariant = GBoolean bool | GDouble 'd | GOther

fun g_variant_get_boolean :: "'d gvariant \<Rightarrow> bool" where
  "g_variant_get_boolean (GBoolean b) = b"
| "g_variant_get_boolean v = False"

fun g_variant_get_double :: "'d::zero gvariant \<Rightarrow> 'd" where
  "g_variant_get_double (GDouble x) = x"
| "g_variant_get_double v = 0"

datatype 'd config_signal =
    enabled_changed bool
  | voltage_target_changed 'd
  | current_limit_changed 'd
  | otp_enabled_changed bool
  | otp_active_changed bool
  | ovp_enabled_changed bool
  | ovp_active_changed bool
  | ovp_threshold_changed 'd
  | ocp_enabled_changed bool
  | ocp_active_changed bool
  | ocp_threshold_changed 'd
  | uvc_enabled_changed bool
  | uvc_active_changed bool

text \<open>
  The switch of \<^verbatim>\<open>feed_in_meta\<close> (lines 499 to 565): the signal an entry makes the
  configurable emit, \<open>None\<close> in the default branch.
\<close>

fun meta_entry_signal :: "config_key \<Rightarrow> 'd::zero gvariant \<Rightarrow> 'd config_signal option" where
  "meta_entry_signal SR_CONF_ENABLED v = Some (enabled_changed (g_variant_get_boolean v))"
| "meta_entry_signal SR_CONF_VOLTAGE_TARGET v =
     Some (voltage_target_changed (g_variant_get_double v))"
| "meta_entry_signal SR_CONF_CURRENT_LIMIT v =
     Some (current_limit_changed (g_variant_get_double v))"
| "meta_entry_signal SR_CONF_OVER_TEMPERATURE_PROTECTION v =
     Some (otp_enabled_changed (g_variant_get_boolean v))"
| "meta_entry_signal SR_CONF_OVER_TEMPERATURE_PROTECTION_ACTIVE v =
     Some (otp_active_changed (g_variant_get_boolean v))"
| "meta_entry_signal SR_CONF_OVER_VOLTAGE_PROTECTION_ENABLED v =
     Some (ovp_enabled_changed (g_variant_get_boolean v))"
| "meta_entry_signal SR_CONF_OVER_VOLTAGE_PROTECTION_ACTIVE v =
     Some (ovp_active_changed (g_variant_get_boolean v))"
| "meta_entry_signal SR_CONF_OVER_VOLTAGE_PROTECTION_THRESHOLD v =
     Some (ovp_threshold_changed (g_variant_get_double v))"
| "meta_entry_signal SR_CONF_OVER_CURRENT_PROTECTION_ENABLED v =
     Some (ocp_enabled_changed (g_variant_get_boolean v))"
| "meta_entry_signal SR_CONF_OVER_CURRENT_PROTECTION_ACTIVE v =
     Some (ocp_active_changed (g_variant_get_boolean v))"
| "meta_entry_signal SR_CONF_OVER_CURRENT_PROTECTION_THRESHOLD v =
     Some (ocp_threshold_changed (g_variant_get_double v))"
| "meta_entry_signal SR_CONF_UNDER_VOLTAGE_CONDITION v =
     Some (uvc_enabled_changed (g_variant_get_boolean v))"
| "meta_entry_signal SR_CONF_UNDER_VOLTAGE_CONDITION_ACTIVE v =
     Some (uvc_active_changed (g_variant_get_boolean v))"
| "meta_entry_signal k v = None"

text \<open>
  Emitting through a null configurable is a null dereference: an error of the model. The
  result of \<^verbatim>\<open>feed_in_meta\<close> is the list of emitted signals, each with the configurable
  that emitted it, in the order of emission.
\<close>

datatype meta_error = NullConfigurable

fun feed_entries ::
  "configurable option \<Rightarrow> (config_key \<times> 'd::zero gvariant) list
     \<Rightarrow> meta_error + (configurable \<times> 'd config_signal) list" where
  "feed_entries configurable [] = Inr []"
| "feed_entries configurable (entry # rest) =
     (case meta_entry_signal (fst entry) (snd entry) of
        None \<Rightarrow> feed_entries configurable rest
      | Some sg \<Rightarrow>
          (case configurable of
             None \<Rightarrow> Inl NullConfigurable
           | Some c \<Rightarrow>
               (case feed_entries configurable rest of
                  Inl e \<Rightarrow> Inl e
                | Inr emitted \<Rightarrow> Inr ((c, sg) # emitted))))"

definition feed_in_meta ::
  "hardware_device \<Rightarrow> (config_key \<times> 'd::zero gvariant) list
     \<Rightarrow> meta_error + (configurable \<times> 'd config_signal) list" where
  "feed_in_meta d sr_meta =
     (let configurable =
            (if length (configurables d) > 0 then Some (configurables d ! 0) else None)
      in feed_entries configurable sr_meta)"

text \<open>
  The table of recognized keys, in the words of the specification: enabled, voltage
  target, current limit, over-temperature protection enabled and active, over-voltage
  protection enabled, active and threshold, over-current protection enabled, active and
  threshold, under-voltage condition enabled and active.
\<close>

definition recognized_keys :: "config_key list" where
  "recognized_keys =
     [SR_CONF_ENABLED, SR_CONF_VOLTAGE_TARGET, SR_CONF_CURRENT_LIMIT,
      SR_CONF_OVER_TEMPERATURE_PROTECTION, SR_CONF_OVER_TEMPERATURE_PROTECTION_ACTIVE,
      SR_CONF_OVER_VOLTAGE_PROTECTION_ENABLED, SR_CONF_OVER_VOLTAGE_PROTECTION_ACTIVE,
      SR_CONF_OVER_VOLTAGE_PROTECTION_THRESHOLD,
      SR_CONF_OVER_CURRENT_PROTECTION_ENABLED, SR_CONF_OVER_CURRENT_PROTECTION_ACTIVE,
      SR_CONF_OVER_CURRENT_PROTECTION_THRESHOLD,
      SR_CONF_UNDER_VOLTAGE_CONDITION, SR_CONF_UNDER_VOLTAGE_CONDITION_ACTIVE]"

section \<open>Invariants of construction\<close>

text \<open>
  The predicates below state what the constructor's loop over the channels keeps true:
  the canonical signals are the first signals with the names tested by
  \<^verbatim>\<open>init_signal\<close>; the value buffer of a signal is the one its name selects; without a
  common time buffer the time buffers of the store are those of the signals, in order; with
  a common time buffer it is the only time buffer of the store.
\<close>

definition voltage_name :: "base_signal \<Rightarrow> bool" where
  "voltage_name s = startsWith (internal_name s) ''V''"

definition current_name :: "base_signal \<Rightarrow> bool" where
  "current_name s = startsWith (internal_name s) ''I''"

definition measurement_name :: "base_signal \<Rightarrow> bool" where
  "measurement_name s = (internal_name s = ''P1'' \<or> internal_name s = ''A1'')"

definition canonical_inv :: "hardware_device \<Rightarrow> bool" where
  "canonical_inv d =
     (voltage_signal d = find voltage_name (all_signals d) \<and>
      current_signal d = find current_name (all_signals d) \<and>
      measurement_signal d = find measurement_name (all_signals d))"

definition data_inv :: "hardware_device \<Rightarrow> bool" where
  "data_inv d =
     (\<forall>s \<in> set (all_signals d).
        signal_data d s = Some (init_signal_data (internal_name s) (sig_fixed_mq s)) \<and>
        internal_name s = chan_name (sig_channel s) \<and>
        chan_type (sig_channel s) = SR_CHANNEL_ANALOG)"

definition private_time_inv :: "hardware_device \<Rightarrow> bool" where
  "private_time_inv d = (map time_data (all_signals d) = map Some (time_buffers d))"

definition shared_time_inv :: "addr \<Rightarrow> hardware_device \<Rightarrow> bool" where
  "shared_time_inv t d =
     (time_buffers d = [t] \<and> (\<forall>s \<in> set (all_signals d). time_data s = Some t))"

definition type_of_keys :: "config_key list \<Rightarrow> device_type" where
  "type_of_keys ks =
     (if SR_CONF_POWER_SUPPLY \<in> set ks then POWER_SUPPLY
      else if SR_CONF_ELECTRONIC_LOAD \<in> set ks then ELECTRONIC_LOAD
      else if SR_CONF_MULTIMETER \<in> set ks then MULTIMETER
      else if SR_CONF_DEMO_DEV \<in> set ks then DEMO_DEV
      else UNKNOWN)"

section \<open>Construction keeps the invariants\<close>

lemma find_snoc:
  "find P (xs @ [x]) = (case find P xs of Some y \<Rightarrow> Some y | None \<Rightarrow> if P x then Some x else None)"
  by (induction xs) auto

lemma set_canonical_signals_fields [simp]:
  "all_signals (set_canonical_signals s d) = all_signals d"
  "store (set_canonical_signals s d) = store d"
  "dev_type (set_canonical_signals s d) = dev_type d"
  "configurables (set_canonical_signals s d) = configurables d"
  "sr_channel_signal_map (set_canonical_signals s d) = sr_channel_signal_map d"
  "sr_device_m (set_canonical_signals s d) = sr_device_m d"
  by (simp_all add: set_canonical_signals_def)

lemma canonical_inv_step:
  assumes "canonical_inv d"
  shows "canonical_inv (set_canonical_signals s (d\<lparr>store := st, all_signals := all_signals d @ [s],
            signal_name_map := nm, sr_channel_signal_map := cm\<rparr>))"
  using assms
  by (auto simp: canonical_inv_def set_canonical_signals_def find_snoc voltage_name_def
        current_name_def measurement_name_def startsWith_def
      split: option.splits)

lemma init_signal_canonical:
  "init_signal c ct f d = Inr (sg, d') \<Longrightarrow> canonical_inv d \<Longrightarrow> canonical_inv d'"
  by (cases "chan_type c")
     (auto simp: init_signal_def Let_def c_assert_def make_shared_analog_def init_time_data_def
        canonical_inv_step split: option.splits prod.splits)

lemma init_signal_data_not_time [simp]: "ad_quantity (init_signal_data n f) \<noteq> Some TIME"
  by (simp add: init_signal_data_def Let_def set_unit_def set_quantity_def
        set_fixed_quantity_def new_analog_data_def)

lemma time_buffers_snoc:
  "time_buffers (d\<lparr>store := store d @ [x]\<rparr>) =
     time_buffers d @ (if ad_quantity x = Some TIME then [length (store d)] else [])"
proof -
  have "filter (\<lambda>a. ad_quantity ((store d @ [x]) ! a) = Some TIME) [0..<length (store d)] =
        filter (\<lambda>a. ad_quantity (store d ! a) = Some TIME) [0..<length (store d)]"
    by (rule filter_cong) (auto simp: nth_append)
  then show ?thesis by (simp add: time_buffers_def)
qed

lemma signal_data_snoc:
  "signal_data d s = Some a \<Longrightarrow> signal_data (d\<lparr>store := store d @ xs\<rparr>) s = Some a"
  by (auto simp: signal_data_def nth_append split: option.splits if_splits)

lemma init_signals_invariant:
  assumes step: "\<And>c d sg d'. init_signal c ct f d = Inr (sg, d') \<Longrightarrow> P d \<Longrightarrow> P d'"
  shows "init_signals cs ct f d = Inr d' \<Longrightarrow> P d \<Longrightarrow> P d'"
proof (induction cs arbitrary: d)
  case Nil
  then show ?case by simp
next
  case (Cons c cs)
  then show ?case
    by (auto split: sum.splits prod.splits dest: step)
qed

lemma init_signal_cases:
  assumes "init_signal c ct f d = Inr (sg, d')"
  obtains (logic) "chan_type c = SR_CHANNEL_LOGIC" "sg = None" "d' = d"
  | (analog) s st where "chan_type c = SR_CHANNEL_ANALOG" "sg = Some s"
      "d' = set_canonical_signals s (d\<lparr>store := st, all_signals := all_signals d @ [s],
          signal_name_map := map_insert (internal_name s) s (signal_name_map d),
          sr_channel_signal_map := map_insert c s (sr_channel_signal_map d)\<rparr>)"
      "internal_name s = chan_name c" "sig_channel s = c" "sig_fixed_mq s = f"
      "case ct of
         Some t \<Rightarrow> time_data s = Some t \<and> data s = Some (length (store d)) \<and>
           st = store d @ [init_signal_data (chan_name c) f]
       | None \<Rightarrow> time_data s = Some (length (store d)) \<and> data s = Some (Suc (length (store d))) \<and>
           st = store d @ [\<lparr>ad_fixed_quantity = Some True, ad_quantity = Some TIME,
             ad_unit = Some SECOND\<rparr>, init_signal_data (chan_name c) f]"
  using assms
  by (cases "chan_type c")
     (auto simp: init_signal_def Let_def make_shared_analog_def init_time_data_def c_assert_def
        BaseSignal_def set_time_data_def set_data_def
        set_unit_def set_quantity_def set_fixed_quantity_def new_analog_data_def
      split: option.splits prod.splits)

lemma time_buffers_store_cong: "store d' = store d \<Longrightarrow> time_buffers d' = time_buffers d"
  by (simp add: time_buffers_def)

lemma signal_data_store_cong: "store d' = store d \<Longrightarrow> signal_data d' s = signal_data d s"
  by (simp add: signal_data_def split: option.splits)

lemma time_buffers_of_store:
  "store d' = st @ [x] \<Longrightarrow> store d = st \<Longrightarrow>
     time_buffers d' = time_buffers d @ (if ad_quantity x = Some TIME then [length st] else [])"
  using time_buffers_snoc [of d x] time_buffers_store_cong [of d' "d\<lparr>store := store d @ [x]\<rparr>"]
  by simp

lemma time_buffers_of_store2:
  "store d' = st @ [x, y] \<Longrightarrow> store d = st \<Longrightarrow>
     time_buffers d' = time_buffers d @ (if ad_quantity x = Some TIME then [length st] else [])
        @ (if ad_quantity y = Some TIME then [Suc (length st)] else [])"
proof -
  assume a: "store d' = st @ [x, y]" and b: "store d = st"
  let ?m = "d\<lparr>store := st @ [x]\<rparr>"
  have 1: "time_buffers ?m = time_buffers d @ (if ad_quantity x = Some TIME then [length st] else [])"
    by (rule time_buffers_of_store [where x = x]) (simp_all add: b)
  have 2: "time_buffers d' = time_buffers ?m @ (if ad_quantity y = Some TIME then [length (st @ [x])] else [])"
    by (rule time_buffers_of_store [where x = y]) (simp_all add: a)
  show ?thesis using 1 2 by simp
qed

lemma signal_data_grow:
  "signal_data d s = Some a \<Longrightarrow> store d' = store d @ xs \<Longrightarrow> signal_data d' s = Some a"
  using signal_data_snoc [of d s a xs] signal_data_store_cong [of d' "d\<lparr>store := store d @ xs\<rparr>" s]
  by simp

lemma init_signal_data_inv:
  assumes "init_signal c ct f d = Inr (sg, d')" "data_inv d"
  shows "data_inv d'"
  using assms(1)
proof (cases rule: init_signal_cases)
  case logic
  then show ?thesis using assms(2) by simp
next
  case (analog s st)
  have grow: "\<exists>xs. st = store d @ xs"
    using analog(7) by (auto split: option.splits)
  then obtain xs where xs: "st = store d @ xs" by blast
  have st': "store d' = store d @ xs"
    using analog(3) xs by simp
  have old: "signal_data d' s' = Some (init_signal_data (internal_name s') (sig_fixed_mq s'))"
    if "s' \<in> set (all_signals d)" for s'
  proof -
    have "signal_data d s' = Some (init_signal_data (internal_name s') (sig_fixed_mq s'))"
      using assms(2) that by (simp add: data_inv_def)
    then show ?thesis using st' by (rule signal_data_grow)
  qed
  have new: "signal_data d' s = Some (init_signal_data (internal_name s) (sig_fixed_mq s))"
    using analog by (auto simp: signal_data_def nth_append split: option.splits)
  show ?thesis
    using old new analog assms(2) by (auto simp: data_inv_def)
qed

lemma init_signal_private_time_inv:
  assumes "init_signal c None f d = Inr (sg, d')" "private_time_inv d"
  shows "private_time_inv d'"
  using assms(1)
proof (cases rule: init_signal_cases)
  case logic
  then show ?thesis using assms(2) by simp
next
  case (analog s st)
  have "time_buffers d' = time_buffers d @ [length (store d)]"
    using analog time_buffers_of_store2 [of d' "store d" _ "init_signal_data (chan_name c) f" d]
    by simp
  then show ?thesis
    using analog assms(2) by (simp add: private_time_inv_def)
qed

lemma init_signal_shared_time_inv:
  assumes "init_signal c (Some t) f d = Inr (sg, d')" "shared_time_inv t d"
  shows "shared_time_inv t d'"
  using assms(1)
proof (cases rule: init_signal_cases)
  case logic
  then show ?thesis using assms(2) by simp
next
  case (analog s st)
  have "time_buffers d' = time_buffers d"
    using analog time_buffers_of_store [of d' "store d" "init_signal_data (chan_name c) f" d]
    by simp
  then show ?thesis
    using analog assms(2) by (simp add: shared_time_inv_def)
qed

lemma init_signal_channels:
  assumes "init_signal c ct f d = Inr (sg, d')"
  shows "map sig_channel (all_signals d') =
           map sig_channel (all_signals d) @ filter (\<lambda>c. chan_type c = SR_CHANNEL_ANALOG) [c]"
  using assms by (cases rule: init_signal_cases) auto

lemma init_signals_channels:
  "init_signals cs ct f d = Inr d' \<Longrightarrow>
     map sig_channel (all_signals d') =
       map sig_channel (all_signals d) @ filter (\<lambda>c. chan_type c = SR_CHANNEL_ANALOG) cs"
proof (induction cs arbitrary: d)
  case Nil
  then show ?case by simp
next
  case (Cons c cs)
  then show ?case
    by (auto split: sum.splits prod.splits dest!: init_signal_channels)
qed

lemma init_signal_frame:
  assumes "init_signal c ct f d = Inr (sg, d')"
  shows "dev_type d' = dev_type d \<and> configurables d' = configurables d \<and>
         sr_device_m d' = sr_device_m d \<and> trace d' = trace d"
  using assms by (cases rule: init_signal_cases) (auto simp: set_canonical_signals_def)

lemma set_device_options_new:
  "\<exists>ct f d0. set_device_options ks (new_device sr) = Inr (ct, f, d0) \<and>
     dev_type d0 = type_of_keys ks \<and>
     canonical_inv d0 \<and> data_inv d0 \<and> all_signals d0 = [] \<and> configurables d0 = [] \<and>
     sr_device_m d0 = sr \<and>
     (if type_of_keys ks = ELECTRONIC_LOAD then ct = Some 0 \<and> shared_time_inv 0 d0
      else ct = None \<and> private_time_inv d0) \<and>
     f = (type_of_keys ks = POWER_SUPPLY \<or> type_of_keys ks = ELECTRONIC_LOAD)"
  by (simp add: set_device_options_def type_of_keys_def new_device_def c_assert_def
        literal_condition_def init_time_data_def make_shared_analog_def Let_def
        canonical_inv_def data_inv_def shared_time_inv_def private_time_inv_def
        time_buffers_def set_unit_def set_quantity_def set_fixed_quantity_def
        new_analog_data_def)

lemma add_channel_groups_frame:
  "all_signals (add_channel_groups gs d) = all_signals d \<and>
   store (add_channel_groups gs d) = store d \<and>
   dev_type (add_channel_groups gs d) = dev_type d \<and>
   voltage_signal (add_channel_groups gs d) = voltage_signal d \<and>
   current_signal (add_channel_groups gs d) = current_signal d \<and>
   measurement_signal (add_channel_groups gs d) = measurement_signal d \<and>
   configurables (add_channel_groups gs d) =
     configurables d @ map (\<lambda>p. Configurable_group (snd p)) gs"
  by (induction gs arbitrary: d) (simp_all add: add_channel_group_def Let_def)

lemma init_configurables_frame:
  "all_signals (init_configurables gs d) = all_signals d \<and>
   store (init_configurables gs d) = store d \<and>
   dev_type (init_configurables gs d) = dev_type d \<and>
   voltage_signal (init_configurables gs d) = voltage_signal d \<and>
   current_signal (init_configurables gs d) = current_signal d \<and>
   measurement_signal (init_configurables gs d) = measurement_signal d \<and>
   configurables (init_configurables gs d) =
     configurables d @
       (if gs = [] then [Configurable_device (sr_device_m d)]
        else map (\<lambda>p. Configurable_group (snd p)) gs)"
  using add_channel_groups_frame [of gs d]
  by (simp add: init_configurables_def)

lemma init_signals_frame:
  "init_signals cs ct f d = Inr d' \<Longrightarrow>
     dev_type d' = dev_type d \<and> configurables d' = configurables d \<and>
     sr_device_m d' = sr_device_m d \<and> trace d' = trace d"
  by (rule init_signals_invariant
        [where P = "\<lambda>x. dev_type x = dev_type d \<and> configurables x = configurables d \<and>
            sr_device_m x = sr_device_m d \<and> trace x = trace d"])
     (auto dest: init_signal_frame)

lemma canonical_inv_cong:
  "all_signals d' = all_signals d \<Longrightarrow> voltage_signal d' = voltage_signal d \<Longrightarrow>
   current_signal d' = current_signal d \<Longrightarrow> measurement_signal d' = measurement_signal d \<Longrightarrow>
   canonical_inv d \<Longrightarrow> canonical_inv d'"
  by (simp add: canonical_inv_def)

lemma data_inv_cong:
  "all_signals d' = all_signals d \<Longrightarrow> store d' = store d \<Longrightarrow> data_inv d \<Longrightarrow> data_inv d'"
  using signal_data_store_cong [of d' d] by (simp add: data_inv_def)

lemma private_time_inv_cong:
  "all_signals d' = all_signals d \<Longrightarrow> store d' = store d \<Longrightarrow>
     private_time_inv d \<Longrightarrow> private_time_inv d'"
  using time_buffers_store_cong [of d' d] by (simp add: private_time_inv_def)

lemma shared_time_inv_cong:
  "all_signals d' = all_signals d \<Longrightarrow> store d' = store d \<Longrightarrow>
     shared_time_inv t d \<Longrightarrow> shared_time_inv t d'"
  using time_buffers_store_cong [of d' d] by (simp add: shared_time_inv_def)

lemma HardwareDevice_invariants:
  assumes "HardwareDevice sr = Inr d"
  shows "dev_type d = type_of_keys (config_keys sr)"
    and "canonical_inv d"
    and "data_inv d"
    and "map sig_channel (all_signals d) = analog_channels sr"
    and "dev_type d = ELECTRONIC_LOAD \<Longrightarrow> shared_time_inv 0 d"
    and "dev_type d \<noteq> ELECTRONIC_LOAD \<Longrightarrow> private_time_inv d"
    and "configurables d =
           (if channel_groups sr = [] then [Configurable_device sr]
            else map (\<lambda>p. Configurable_group (snd p)) (channel_groups sr))"
proof -
  obtain ct f d0 where
    opt: "set_device_options (config_keys sr) (new_device sr) = Inr (ct, f, d0)" and
    ty0: "dev_type d0 = type_of_keys (config_keys sr)" and
    c0: "canonical_inv d0" and da0: "data_inv d0" and sg0: "all_signals d0 = []" and
    cf0: "configurables d0 = []" and sr0: "sr_device_m d0 = sr" and
    tm0: "if type_of_keys (config_keys sr) = ELECTRONIC_LOAD
          then ct = Some 0 \<and> shared_time_inv 0 d0 else ct = None \<and> private_time_inv d0"
    using set_device_options_new [of "config_keys sr" sr] by blast
  obtain d1 where
    loop: "init_signals (channels sr) ct f d0 = Inr d1" and
    d: "d = init_configurables (channel_groups sr) d1"
    using assms opt by (auto simp: HardwareDevice_def split: sum.splits)
  note fr = init_signals_frame [OF loop]
  note cfr = init_configurables_frame [of "channel_groups sr" d1]
  have c1: "canonical_inv d1"
    using loop c0 by (rule init_signals_invariant [rotated]) (rule init_signal_canonical)
  have da1: "data_inv d1"
    using loop da0 by (rule init_signals_invariant [rotated]) (rule init_signal_data_inv)
  show "dev_type d = type_of_keys (config_keys sr)"
    using d fr cfr ty0 by simp
  show "canonical_inv d"
    using c1 cfr d by (auto intro: canonical_inv_cong)
  show "data_inv d"
    using da1 cfr d by (auto intro: data_inv_cong)
  show "map sig_channel (all_signals d) = analog_channels sr"
    using init_signals_channels [OF loop] sg0 cfr d by (simp add: analog_channels_def)
  show "configurables d =
           (if channel_groups sr = [] then [Configurable_device sr]
            else map (\<lambda>p. Configurable_group (snd p)) (channel_groups sr))"
    using cfr d fr cf0 sr0 by simp
  show "shared_time_inv 0 d" if "dev_type d = ELECTRONIC_LOAD"
  proof -
    have el: "type_of_keys (config_keys sr) = ELECTRONIC_LOAD"
      using that d fr cfr ty0 by simp
    then have ct: "ct = Some 0" and s0: "shared_time_inv 0 d0" using tm0 by simp_all
    have "shared_time_inv 0 d1"
      using loop [unfolded ct] s0
      by (rule init_signals_invariant [rotated]) (rule init_signal_shared_time_inv)
    then show ?thesis using cfr d by (auto intro: shared_time_inv_cong)
  qed
  show "private_time_inv d" if "dev_type d \<noteq> ELECTRONIC_LOAD"
  proof -
    have el: "type_of_keys (config_keys sr) \<noteq> ELECTRONIC_LOAD"
      using that d fr cfr ty0 by simp
    then have ct: "ct = None" and s0: "private_time_inv d0" using tm0 by simp_all
    have "private_time_inv d1"
      using loop [unfolded ct] s0
      by (rule init_signals_invariant [rotated]) (rule init_signal_private_time_inv)
    then show ?thesis using cfr d by (auto intro: private_time_inv_cong)
  qed
qed

subsection \<open>When construction returns\<close>

text \<open>
  Construction returns a device when every channel is a logic or an analog channel, and
  aborts on the assertion of \<^verbatim>\<open>init_signal\<close> when some channel has another type.
\<close>

lemma init_signal_returns:
  "chan_type c = SR_CHANNEL_LOGIC \<or> chan_type c = SR_CHANNEL_ANALOG \<Longrightarrow>
     \<exists>sg d'. init_signal c ct f d = Inr (sg, d')"
  by (auto simp: init_signal_def Let_def split: prod.splits)

lemma init_signals_returns:
  "\<forall>c \<in> set cs. chan_type c = SR_CHANNEL_LOGIC \<or> chan_type c = SR_CHANNEL_ANALOG \<Longrightarrow>
     \<exists>d'. init_signals cs ct f d = Inr d'"
proof (induction cs arbitrary: d)
  case Nil
  then show ?case by simp
next
  case (Cons c cs)
  then obtain sg d1 where "init_signal c ct f d = Inr (sg, d1)"
    using init_signal_returns [of c ct f d] by auto
  then show ?case using Cons by simp
qed

lemma HardwareDevice_returns:
  assumes "\<forall>c \<in> set (channels sr). chan_type c = SR_CHANNEL_LOGIC \<or> chan_type c = SR_CHANNEL_ANALOG"
  shows "\<exists>d. HardwareDevice sr = Inr d"
proof -
  obtain ct f d0 where "set_device_options (config_keys sr) (new_device sr) = Inr (ct, f, d0)"
    using set_device_options_new [of "config_keys sr" sr] by blast
  moreover obtain d1 where "init_signals (channels sr) ct f d0 = Inr d1"
    using init_signals_returns [OF assms] by blast
  ultimately show ?thesis by (simp add: HardwareDevice_def)
qed

lemma HardwareDevice_aborts:
  assumes "c \<in> set (channels sr)" and "chan_type c = SR_CHANNEL_OTHER i"
  shows "HardwareDevice sr = Inl AssertionFailed"
proof -
  have 1: "init_signal c ct f d = Inl AssertionFailed" for ct f d
    using assms(2) by (simp add: init_signal_def c_assert_def)
  have 2: "c \<in> set cs \<Longrightarrow> init_signals cs ct f d = Inl AssertionFailed" for cs ct f d
  proof (induction cs arbitrary: d)
    case Nil
    then show ?case by simp
  next
    case (Cons a cs)
    show ?case
    proof (cases "init_signal a ct f d")
      case (Inl e)
      then show ?thesis by (cases e) simp
    next
      case (Inr r)
      then have "a \<noteq> c" using 1 [of ct f d] by auto
      then show ?thesis using Cons Inr by (cases r) auto
    qed
  qed
  obtain ct f d0 where "set_device_options (config_keys sr) (new_device sr) = Inr (ct, f, d0)"
    using set_device_options_new [of "config_keys sr" sr] by blast
  then show ?thesis using 2 [OF assms(1)] by (simp add: HardwareDevice_def)
qed

section \<open>The value buffer by name, and the lifecycle's frame\<close>

lemma init_signal_data_current:
  "ad_quantity (init_signal_data n f) = Some CURRENT \<longleftrightarrow> startsWith n ''I''"
  by (cases n)
     (auto simp: init_signal_data_def Let_def set_unit_def set_quantity_def
        set_fixed_quantity_def new_analog_data_def startsWith_def)

lemma init_signal_data_V:
  "startsWith n ''V'' \<Longrightarrow>
     ad_quantity (init_signal_data n f) = Some VOLTAGE \<and> ad_unit (init_signal_data n f) = Some VOLT"
  by (simp add: init_signal_data_def Let_def set_unit_def set_quantity_def
        set_fixed_quantity_def new_analog_data_def)

lemma init_signal_data_I:
  "startsWith n ''I'' \<Longrightarrow>
     ad_quantity (init_signal_data n f) = Some CURRENT \<and> ad_unit (init_signal_data n f) = Some AMPERE"
  by (cases n)
     (auto simp: init_signal_data_def Let_def set_unit_def set_quantity_def
        set_fixed_quantity_def new_analog_data_def startsWith_def)

lemma init_signal_data_F:
  "startsWith n ''F'' \<Longrightarrow>
     ad_quantity (init_signal_data n f) = Some FREQUENCY \<and> ad_unit (init_signal_data n f) = Some HERTZ"
  by (cases n)
     (auto simp: init_signal_data_def Let_def set_unit_def set_quantity_def
        set_fixed_quantity_def new_analog_data_def startsWith_def)

lemma init_signal_data_P1:
  "ad_quantity (init_signal_data ''P1'' f) = None \<and> ad_unit (init_signal_data ''P1'' f) = None"
  by (simp add: init_signal_data_def Let_def set_unit_def set_quantity_def
        set_fixed_quantity_def new_analog_data_def startsWith_def)

lemma init_signal_data_A:
  "startsWith n ''A'' \<Longrightarrow>
     ad_quantity (init_signal_data n f) = Some VOLTAGE \<and> ad_unit (init_signal_data n f) = Some VOLT"
  by (cases n)
     (auto simp: init_signal_data_def Let_def set_unit_def set_quantity_def
        set_fixed_quantity_def new_analog_data_def startsWith_def)

lemma find_Some_in_set: "find P xs = Some x \<Longrightarrow> x \<in> set xs \<and> P x"
  by (induction xs) (auto split: if_splits)

lemma data_inv_quantity:
  "data_inv d \<Longrightarrow> s \<in> set (all_signals d) \<Longrightarrow>
     signal_quantity d s = ad_quantity (init_signal_data (internal_name s) (sig_fixed_mq s)) \<and>
     signal_unit d s = ad_unit (init_signal_data (internal_name s) (sig_fixed_mq s)) \<and>
     signal_data d s \<noteq> None"
  by (simp add: data_inv_def signal_quantity_def signal_unit_def)

lemma distinct_time_buffers: "distinct (time_buffers d)"
  by (simp add: time_buffers_def)

lemma lifecycle_keeps_signals:
  "all_signals (close d) = all_signals d \<and> store (close d) = store d \<and>
   all_signals (snd (open e d)) = all_signals d \<and> store (snd (open e d)) = store d \<and>
   all_signals (aquisition_thread_proc se run d) = all_signals d \<and>
   store (aquisition_thread_proc se run d) = store d"
  by (simp add: close_def open_def aquisition_thread_proc_def log_event_def error_handler_def
        Let_def split: option.splits)

section \<open>Facts on metadata packets and on closing\<close>

lemma meta_entry_signal_recognized:
  "meta_entry_signal k v \<noteq> None \<longleftrightarrow> k \<in> set recognized_keys"
  by (cases k) (simp_all add: recognized_keys_def)

lemma feed_entries_Some:
  "feed_entries (Some c) sr_meta =
     Inr (map (\<lambda>entry. (c, the (meta_entry_signal (fst entry) (snd entry))))
            (filter (\<lambda>entry. fst entry \<in> set recognized_keys) sr_meta))"
proof (induction sr_meta)
  case Nil
  then show ?case by simp
next
  case (Cons entry rest)
  show ?case
  proof (cases "meta_entry_signal (fst entry) (snd entry)")
    case None
    then have "fst entry \<notin> set recognized_keys"
      using meta_entry_signal_recognized [of "fst entry" "snd entry"] by simp
    then show ?thesis using None Cons by simp
  next
    case (Some sg)
    then have "fst entry \<in> set recognized_keys"
      using meta_entry_signal_recognized [of "fst entry" "snd entry"] by simp
    then show ?thesis using Some Cons by simp
  qed
qed

lemma feed_in_meta_nonempty:
  "configurables d \<noteq> [] \<Longrightarrow>
     feed_in_meta d sr_meta =
       Inr (map (\<lambda>entry. (configurables d ! 0, the (meta_entry_signal (fst entry) (snd entry))))
              (filter (\<lambda>entry. fst entry \<in> set recognized_keys) sr_meta))"
  by (simp add: feed_in_meta_def feed_entries_Some)

lemma close_events:
  "new_events d (close d) =
     (if device_open d then
        [SessionRemoveDatafeedCallbacks] @
        (if aquisition_state d \<noteq> Stopped then [SessionStop] else []) @
        (if aquisition_thread_joinable d then [ThreadJoin] else []) @
        [SessionRemoveDevices, SrDeviceClose]
      else [])"
  by (simp add: close_def new_events_def log_event_def Let_def)

lemma close_state:
  "device_open (close d) = False \<and>
   aquisition_state (close d) = (if device_open d then Stopped else aquisition_state d)"
  by (simp add: close_def log_event_def Let_def)

lemma open_failure_events:
  "new_events d (snd (open (Some e) d)) = new_events d (close d) @ [SrDeviceOpen]"
  by (simp add: open_def close_def new_events_def log_event_def Let_def)

section \<open>Evaluating the constructor on a concrete device\<close>

text \<open>
  Rules for running the model on a given driver handle: the constructor with its
  intermediate results read by projections, the definitions it unfolds, and congruence
  rules that make the simplifier evaluate a scrutinee before it enters the branches.
\<close>

lemma HardwareDevice_eval:
  "HardwareDevice sr =
     (case set_device_options (config_keys sr) (new_device sr) of
        Inl e \<Rightarrow> Inl e
      | Inr r \<Rightarrow>
          (case init_signals (channels sr) (fst r) (fst (snd r)) (snd (snd r)) of
             Inl e \<Rightarrow> Inl e
           | Inr d' \<Rightarrow> Inr (init_configurables (channel_groups sr) d')))"
  by (simp add: HardwareDevice_def split: sum.splits prod.splits)

lemmas ctor_eval =
  HardwareDevice_eval set_device_options_def new_device_def init_signal_def
  init_configurables_def add_channel_group_def set_canonical_signals_def
  init_signal_data_def init_time_data_def make_shared_analog_def c_assert_def
  literal_condition_def map_insert_def BaseSignal_def set_time_data_def set_data_def
  set_unit_def set_quantity_def set_fixed_quantity_def new_analog_data_def startsWith_def
  signal_quantity_def signal_unit_def signal_data_def time_buffers_def Let_def
  List.map_filter_def analog_channels_def

lemmas eval_cong =
  let_weak_cong prod.case_cong_weak option.case_cong_weak channel_type.case_cong_weak
  sum.case_cong_weak

section \<open>Results on naming\<close>

text \<open>
  Claim C9. The claim reads: adjacent non-empty identity fields are separated by exactly
  one space and the name has no trailing separator. On the source, a device with vendor
  \<open>A\<close> and model \<open>B\<close> and nothing else is named \<open>AB\<close> followed by one space: the two
  fields touch, and the separator set by the model block is appended by nobody but stays
  behind the model as a trailing space. The first line below is that evaluation; the
  second shows the doubled space before a connection id, the third the same in
  \<^verbatim>\<open>short_name\<close>.
\<close>

theorem full_name_misplaces_separator:
  "full_name \<lparr>vendor = ''A'', model = ''B'', version = '''', serial_number = '''',
      connection_id = '''', config_keys = ks, channels = cs, channel_groups = gs\<rparr> = ''AB ''
   \<and> full_name \<lparr>vendor = ''A'', model = ''B'', version = '''', serial_number = '''',
      connection_id = ''x'', config_keys = ks, channels = cs, channel_groups = gs\<rparr> = ''AB  (x)''
   \<and> short_name \<lparr>vendor = ''A'', model = ''B'', version = '''', serial_number = '''',
      connection_id = ''x'', config_keys = ks, channels = cs, channel_groups = gs\<rparr> = ''AB  (x)''"
  by (simp add: full_name_def short_name_def append_field_def append_connection_id_def Let_def)

section \<open>Results on construction\<close>

text \<open>
  Claim C2. The claim reads: a device whose capability keys match none of power supply,
  electronic load, multimeter and demo device is a hard configuration error at
  construction, reported, and never continued into a usable device. On the source the
  last branch sets the type to \<open>UNKNOWN\<close> and asserts a string literal, which is true; the
  constructor goes on. Evaluated on a handle with one foreign capability key and one analog
  channel \<open>V1\<close>: construction returns a device of type \<open>UNKNOWN\<close> with the voltage signal
  \<open>V1\<close> and one configurable, and nothing is reported.
\<close>

theorem unknown_device_type_is_constructed:
  "case HardwareDevice
          \<lparr>vendor = ''X'', model = ''Y'', version = [], serial_number = [], connection_id = [],
           config_keys = [SR_CONF_OTHER 7],
           channels = [\<lparr>chan_index = 0, chan_type = SR_CHANNEL_ANALOG, chan_name = ''V1''\<rparr>],
           channel_groups = []\<rparr> of
     Inl e \<Rightarrow> False
   | Inr d \<Rightarrow>
        dev_type d = UNKNOWN \<and> map internal_name (all_signals d) = [''V1''] \<and>
        map (signal_quantity d) (all_signals d) = [Some VOLTAGE] \<and>
        map_option internal_name (voltage_signal d) = Some ''V1'' \<and>
        length (configurables d) = 1 \<and> trace d = []"
  by (simp add: ctor_eval cong: eval_cong)

text \<open>
  Claim C3, as the source has it. After construction, the canonical voltage signal is the
  first signal created whose internal name starts with \<open>V\<close> (it has quantity voltage), the
  canonical current signal is the first signal created whose quantity is current (the same
  as: whose name starts with \<open>I\<close>), and the canonical measurement signal is the first
  signal created whose name is \<open>P1\<close> or \<open>A1\<close>. Being the first in the list of all
  signals, none of them depends on the signals created before of other kinds, and none is
  overridden by a later one.
\<close>

theorem canonical_signals_first_by_name:
  assumes "HardwareDevice sr = Inr d"
  shows "voltage_signal d = find (\<lambda>s. startsWith (internal_name s) ''V'') (all_signals d) \<and>
         current_signal d = find (\<lambda>s. signal_quantity d s = Some CURRENT) (all_signals d) \<and>
         measurement_signal d =
           find (\<lambda>s. internal_name s = ''P1'' \<or> internal_name s = ''A1'') (all_signals d) \<and>
         (\<forall>s. voltage_signal d = Some s \<longrightarrow> signal_quantity d s = Some VOLTAGE)"
proof -
  have ci: "canonical_inv d" and di: "data_inv d"
    using HardwareDevice_invariants(2,3) [OF assms] by simp_all
  have v: "voltage_signal d = find (\<lambda>s. startsWith (internal_name s) ''V'') (all_signals d)"
    using ci by (simp add: canonical_inv_def voltage_name_def [abs_def])
  have m: "measurement_signal d =
      find (\<lambda>s. internal_name s = ''P1'' \<or> internal_name s = ''A1'') (all_signals d)"
    using ci by (simp add: canonical_inv_def measurement_name_def [abs_def])
  have "find (\<lambda>s. signal_quantity d s = Some CURRENT) (all_signals d) =
        find current_name (all_signals d)"
    by (rule find_cong)
       (simp_all add: data_inv_quantity [OF di] init_signal_data_current current_name_def)
  then have c: "current_signal d = find (\<lambda>s. signal_quantity d s = Some CURRENT) (all_signals d)"
    using ci by (simp add: canonical_inv_def)
  have vq: "signal_quantity d s = Some VOLTAGE" if "voltage_signal d = Some s" for s
  proof -
    have "s \<in> set (all_signals d) \<and> startsWith (internal_name s) ''V''"
      using that v find_Some_in_set [of "\<lambda>s. startsWith (internal_name s) ''V''" "all_signals d" s]
      by simp
    then show ?thesis by (simp add: data_inv_quantity [OF di] init_signal_data_V)
  qed
  show ?thesis using v c m vq by blast
qed

text \<open>
  The theorem at a power supply with the analog channels \<open>I1\<close>, \<open>A1\<close>, \<open>V1\<close>, \<open>V2\<close>,
  \<open>P1\<close>, \<open>I2\<close> and a logic channel \<open>V0\<close>.
\<close>

theorem canonical_signals_first_by_name_witness:
  "\<exists>d. HardwareDevice
          \<lparr>vendor = ''X'', model = ''Y'', version = [], serial_number = [], connection_id = [],
           config_keys = [SR_CONF_POWER_SUPPLY],
           channels = [\<lparr>chan_index = 0, chan_type = SR_CHANNEL_ANALOG, chan_name = ''I1''\<rparr>,
                       \<lparr>chan_index = 1, chan_type = SR_CHANNEL_ANALOG, chan_name = ''A1''\<rparr>,
                       \<lparr>chan_index = 2, chan_type = SR_CHANNEL_LOGIC, chan_name = ''V0''\<rparr>,
                       \<lparr>chan_index = 3, chan_type = SR_CHANNEL_ANALOG, chan_name = ''V1''\<rparr>,
                       \<lparr>chan_index = 4, chan_type = SR_CHANNEL_ANALOG, chan_name = ''V2''\<rparr>,
                       \<lparr>chan_index = 5, chan_type = SR_CHANNEL_ANALOG, chan_name = ''P1''\<rparr>,
                       \<lparr>chan_index = 6, chan_type = SR_CHANNEL_ANALOG, chan_name = ''I2''\<rparr>],
           channel_groups = []\<rparr> = Inr d \<and>
        map internal_name (all_signals d) = [''I1'', ''A1'', ''V1'', ''V2'', ''P1'', ''I2''] \<and>
        voltage_signal d = find (\<lambda>s. startsWith (internal_name s) ''V'') (all_signals d) \<and>
        current_signal d = find (\<lambda>s. signal_quantity d s = Some CURRENT) (all_signals d) \<and>
        measurement_signal d =
           find (\<lambda>s. internal_name s = ''P1'' \<or> internal_name s = ''A1'') (all_signals d) \<and>
        map_option internal_name (voltage_signal d) = Some ''V1'' \<and>
        map_option internal_name (current_signal d) = Some ''I1'' \<and>
        map_option internal_name (measurement_signal d) = Some ''A1''"
proof -
  let ?sr = "\<lparr>vendor = ''X'', model = ''Y'', version = [], serial_number = [], connection_id = [],
           config_keys = [SR_CONF_POWER_SUPPLY],
           channels = [\<lparr>chan_index = 0, chan_type = SR_CHANNEL_ANALOG, chan_name = ''I1''\<rparr>,
                       \<lparr>chan_index = 1, chan_type = SR_CHANNEL_ANALOG, chan_name = ''A1''\<rparr>,
                       \<lparr>chan_index = 2, chan_type = SR_CHANNEL_LOGIC, chan_name = ''V0''\<rparr>,
                       \<lparr>chan_index = 3, chan_type = SR_CHANNEL_ANALOG, chan_name = ''V1''\<rparr>,
                       \<lparr>chan_index = 4, chan_type = SR_CHANNEL_ANALOG, chan_name = ''V2''\<rparr>,
                       \<lparr>chan_index = 5, chan_type = SR_CHANNEL_ANALOG, chan_name = ''P1''\<rparr>,
                       \<lparr>chan_index = 6, chan_type = SR_CHANNEL_ANALOG, chan_name = ''I2''\<rparr>],
           channel_groups = []\<rparr>"
  have "case HardwareDevice ?sr of
          Inl e \<Rightarrow> False
        | Inr d \<Rightarrow>
            map internal_name (all_signals d) = [''I1'', ''A1'', ''V1'', ''V2'', ''P1'', ''I2''] \<and>
            map_option internal_name (voltage_signal d) = Some ''V1'' \<and>
            map_option internal_name (current_signal d) = Some ''I1'' \<and>
            map_option internal_name (measurement_signal d) = Some ''A1''"
    by (simp add: ctor_eval cong: eval_cong)
  then obtain d where d: "HardwareDevice ?sr = Inr d" and
    facts: "map internal_name (all_signals d) = [''I1'', ''A1'', ''V1'', ''V2'', ''P1'', ''I2'']"
      "map_option internal_name (voltage_signal d) = Some ''V1''"
      "map_option internal_name (current_signal d) = Some ''I1''"
      "map_option internal_name (measurement_signal d) = Some ''A1''"
    by (cases "HardwareDevice ?sr") simp_all
  note main = canonical_signals_first_by_name [OF d]
  show ?thesis
    by (rule exI [of _ d]) (use main d facts in simp)
qed

text \<open>
  Claim C3 as stated has the voltage signal be the first signal created whose quantity is
  voltage. A channel whose name starts with \<open>A\<close> makes a signal of quantity voltage too,
  and it is never taken as the voltage signal: with the channels \<open>A2\<close>, \<open>V1\<close> the first
  signal of quantity voltage is \<open>A2\<close>, and the voltage signal is \<open>V1\<close>.
\<close>

theorem voltage_signal_not_first_voltage_quantity:
  "case HardwareDevice
          \<lparr>vendor = ''X'', model = ''Y'', version = [], serial_number = [], connection_id = [],
           config_keys = [SR_CONF_MULTIMETER],
           channels = [\<lparr>chan_index = 0, chan_type = SR_CHANNEL_ANALOG, chan_name = ''A2''\<rparr>,
                       \<lparr>chan_index = 1, chan_type = SR_CHANNEL_ANALOG, chan_name = ''V1''\<rparr>],
           channel_groups = []\<rparr> of
     Inl e \<Rightarrow> False
   | Inr d \<Rightarrow>
        map internal_name (all_signals d) = [''A2'', ''V1''] \<and>
        map (signal_quantity d) (all_signals d) = [Some VOLTAGE, Some VOLTAGE] \<and>
        map_option internal_name (voltage_signal d) = Some ''V1'' \<and>
        map_option internal_name
          (find (\<lambda>s. signal_quantity d s = Some VOLTAGE) (all_signals d)) = Some ''A2'' \<and>
        voltage_signal d \<noteq> find (\<lambda>s. signal_quantity d s = Some VOLTAGE) (all_signals d)"
  by (simp add: ctor_eval cong: eval_cong)

text \<open>
  Claim C4. A device has one signal per analog channel. For an electronic load the store
  holds exactly one time buffer and every signal points to it. For a power supply the time
  buffers of the store are exactly the time buffers of the signals, one each, in the order
  of creation, no two signals sharing one; so there are as many as analog channels. Neither
  \<^verbatim>\<open>open\<close>, \<^verbatim>\<open>close\<close> nor the acquisition task changes a signal's time buffer: the
  choice is the constructor's.
\<close>

theorem time_buffer_shared_or_private:
  assumes "HardwareDevice sr = Inr d"
  shows "length (all_signals d) = length (analog_channels sr) \<and>
         (dev_type d = ELECTRONIC_LOAD \<longrightarrow>
            (\<exists>t. time_buffers d = [t] \<and> (\<forall>s \<in> set (all_signals d). time_data s = Some t))) \<and>
         (dev_type d = POWER_SUPPLY \<longrightarrow>
            map time_data (all_signals d) = map Some (time_buffers d) \<and>
            distinct (map time_data (all_signals d)) \<and>
            length (time_buffers d) = length (analog_channels sr)) \<and>
         (\<forall>e se run.
            map time_data (all_signals (close d)) = map time_data (all_signals d) \<and>
            map time_data (all_signals (snd (open e d))) = map time_data (all_signals d) \<and>
            map time_data (all_signals (aquisition_thread_proc se run d)) =
              map time_data (all_signals d))"
proof -
  note inv = HardwareDevice_invariants [OF assms]
  have n: "length (all_signals d) = length (analog_channels sr)"
    using inv(4) by (metis length_map)
  have el: "\<exists>t. time_buffers d = [t] \<and> (\<forall>s \<in> set (all_signals d). time_data s = Some t)"
    if "dev_type d = ELECTRONIC_LOAD"
    using inv(5) [OF that] by (auto simp: shared_time_inv_def)
  have ps: "map time_data (all_signals d) = map Some (time_buffers d) \<and>
            distinct (map time_data (all_signals d)) \<and>
            length (time_buffers d) = length (analog_channels sr)"
    if "dev_type d = POWER_SUPPLY"
  proof -
    have p: "map time_data (all_signals d) = map Some (time_buffers d)"
      using inv(6) that by (simp add: private_time_inv_def)
    have "distinct (map Some (time_buffers d))"
      by (simp add: distinct_map distinct_time_buffers)
    moreover have "length (time_buffers d) = length (all_signals d)"
      using p by (metis length_map)
    ultimately show ?thesis using p n by simp
  qed
  have life: "\<forall>e se run.
            map time_data (all_signals (close d)) = map time_data (all_signals d) \<and>
            map time_data (all_signals (snd (open e d))) = map time_data (all_signals d) \<and>
            map time_data (all_signals (aquisition_thread_proc se run d)) =
              map time_data (all_signals d)"
    by (simp add: lifecycle_keeps_signals)
  show ?thesis
    using n el ps life by blast
qed

text \<open>
  The theorem at an electronic load and at a power supply, each with the analog channels
  \<open>V1\<close>, \<open>I1\<close>, \<open>P1\<close> and a logic channel.
\<close>

theorem time_buffer_shared_or_private_witness:
  "(\<exists>d. HardwareDevice
          \<lparr>vendor = ''X'', model = ''L'', version = [], serial_number = [], connection_id = [],
           config_keys = [SR_CONF_ELECTRONIC_LOAD],
           channels = [\<lparr>chan_index = 0, chan_type = SR_CHANNEL_ANALOG, chan_name = ''V1''\<rparr>,
                       \<lparr>chan_index = 1, chan_type = SR_CHANNEL_LOGIC, chan_name = ''D0''\<rparr>,
                       \<lparr>chan_index = 2, chan_type = SR_CHANNEL_ANALOG, chan_name = ''I1''\<rparr>,
                       \<lparr>chan_index = 3, chan_type = SR_CHANNEL_ANALOG, chan_name = ''P1''\<rparr>],
           channel_groups = []\<rparr> = Inr d \<and>
        dev_type d = ELECTRONIC_LOAD \<and> length (all_signals d) = 3 \<and>
        time_buffers d = [0] \<and> map time_data (all_signals d) = [Some 0, Some 0, Some 0]) \<and>
   (\<exists>d. HardwareDevice
          \<lparr>vendor = ''X'', model = ''S'', version = [], serial_number = [], connection_id = [],
           config_keys = [SR_CONF_POWER_SUPPLY],
           channels = [\<lparr>chan_index = 0, chan_type = SR_CHANNEL_ANALOG, chan_name = ''V1''\<rparr>,
                       \<lparr>chan_index = 1, chan_type = SR_CHANNEL_LOGIC, chan_name = ''D0''\<rparr>,
                       \<lparr>chan_index = 2, chan_type = SR_CHANNEL_ANALOG, chan_name = ''I1''\<rparr>,
                       \<lparr>chan_index = 3, chan_type = SR_CHANNEL_ANALOG, chan_name = ''P1''\<rparr>],
           channel_groups = []\<rparr> = Inr d \<and>
        dev_type d = POWER_SUPPLY \<and> length (all_signals d) = 3 \<and>
        time_buffers d = [0, 2, 4] \<and> map time_data (all_signals d) = [Some 0, Some 2, Some 4] \<and>
        distinct (map time_data (all_signals d)))"
proof -
  let ?chs = "[\<lparr>chan_index = 0, chan_type = SR_CHANNEL_ANALOG, chan_name = ''V1''\<rparr>,
               \<lparr>chan_index = 1, chan_type = SR_CHANNEL_LOGIC, chan_name = ''D0''\<rparr>,
               \<lparr>chan_index = 2, chan_type = SR_CHANNEL_ANALOG, chan_name = ''I1''\<rparr>,
               \<lparr>chan_index = 3, chan_type = SR_CHANNEL_ANALOG, chan_name = ''P1''\<rparr>]"
  let ?el = "\<lparr>vendor = ''X'', model = ''L'', version = [], serial_number = [], connection_id = [],
           config_keys = [SR_CONF_ELECTRONIC_LOAD], channels = ?chs, channel_groups = []\<rparr>"
  let ?ps = "\<lparr>vendor = ''X'', model = ''S'', version = [], serial_number = [], connection_id = [],
           config_keys = [SR_CONF_POWER_SUPPLY], channels = ?chs, channel_groups = []\<rparr>"
  have "case HardwareDevice ?el of
          Inl e \<Rightarrow> False
        | Inr d \<Rightarrow> dev_type d = ELECTRONIC_LOAD \<and> time_buffers d = [0] \<and>
            map time_data (all_signals d) = [Some 0, Some 0, Some 0]"
    by (simp add: ctor_eval cong: eval_cong)
  then obtain d1 where d1: "HardwareDevice ?el = Inr d1" and
    f1: "dev_type d1 = ELECTRONIC_LOAD" "time_buffers d1 = [0]"
      "map time_data (all_signals d1) = [Some 0, Some 0, Some 0]"
    by (cases "HardwareDevice ?el") simp_all
  have "case HardwareDevice ?ps of
          Inl e \<Rightarrow> False
        | Inr d \<Rightarrow> dev_type d = POWER_SUPPLY \<and> time_buffers d = [0, 2, 4]"
    by (simp add: ctor_eval cong: eval_cong)
  then obtain d2 where d2: "HardwareDevice ?ps = Inr d2" and
    f2: "dev_type d2 = POWER_SUPPLY" "time_buffers d2 = [0, 2, 4]"
    by (cases "HardwareDevice ?ps") simp_all
  note m1 = time_buffer_shared_or_private [OF d1]
  note m2 = time_buffer_shared_or_private [OF d2]
  have a: "\<exists>d. HardwareDevice ?el = Inr d \<and>
        dev_type d = ELECTRONIC_LOAD \<and> length (all_signals d) = 3 \<and>
        time_buffers d = [0] \<and> map time_data (all_signals d) = [Some 0, Some 0, Some 0]"
    by (rule exI [of _ d1]) (use m1 d1 f1 in \<open>simp add: analog_channels_def\<close>)
  have b: "\<exists>d. HardwareDevice ?ps = Inr d \<and>
        dev_type d = POWER_SUPPLY \<and> length (all_signals d) = 3 \<and>
        time_buffers d = [0, 2, 4] \<and> map time_data (all_signals d) = [Some 0, Some 2, Some 4] \<and>
        distinct (map time_data (all_signals d))"
    by (rule exI [of _ d2]) (use m2 d2 f2 in \<open>simp add: analog_channels_def\<close>)
  from a b show ?thesis by (rule conjI)
qed

text \<open>
  Claim C5. The signals of a device carry the names of its analog channels, in order, and
  each has a value buffer whose quantity and unit follow the name: prefix \<open>V\<close> gives
  voltage and volt, prefix \<open>I\<close> current and ampere, prefix \<open>F\<close> frequency and hertz, the
  name \<open>P1\<close> leaves quantity and unit unset, prefix \<open>A\<close> gives voltage and volt.
\<close>

theorem signal_quantity_unit_by_name:
  assumes "HardwareDevice sr = Inr d"
  shows "map internal_name (all_signals d) = map chan_name (analog_channels sr) \<and>
         (\<forall>s \<in> set (all_signals d).
            signal_data d s \<noteq> None \<and>
            (startsWith (internal_name s) ''V'' \<longrightarrow>
               signal_quantity d s = Some VOLTAGE \<and> signal_unit d s = Some VOLT) \<and>
            (startsWith (internal_name s) ''I'' \<longrightarrow>
               signal_quantity d s = Some CURRENT \<and> signal_unit d s = Some AMPERE) \<and>
            (startsWith (internal_name s) ''F'' \<longrightarrow>
               signal_quantity d s = Some FREQUENCY \<and> signal_unit d s = Some HERTZ) \<and>
            (internal_name s = ''P1'' \<longrightarrow>
               signal_quantity d s = None \<and> signal_unit d s = None) \<and>
            (startsWith (internal_name s) ''A'' \<longrightarrow>
               signal_quantity d s = Some VOLTAGE \<and> signal_unit d s = Some VOLT))"
proof -
  note inv = HardwareDevice_invariants [OF assms]
  have "map internal_name (all_signals d) = map (chan_name \<circ> sig_channel) (all_signals d)"
    using inv(3) by (simp add: data_inv_def)
  also have "\<dots> = map chan_name (map sig_channel (all_signals d))"
    by simp
  finally have names: "map internal_name (all_signals d) = map chan_name (analog_channels sr)"
    using inv(4) by simp
  have each: "signal_data d s \<noteq> None \<and>
            (startsWith (internal_name s) ''V'' \<longrightarrow>
               signal_quantity d s = Some VOLTAGE \<and> signal_unit d s = Some VOLT) \<and>
            (startsWith (internal_name s) ''I'' \<longrightarrow>
               signal_quantity d s = Some CURRENT \<and> signal_unit d s = Some AMPERE) \<and>
            (startsWith (internal_name s) ''F'' \<longrightarrow>
               signal_quantity d s = Some FREQUENCY \<and> signal_unit d s = Some HERTZ) \<and>
            (internal_name s = ''P1'' \<longrightarrow>
               signal_quantity d s = None \<and> signal_unit d s = None) \<and>
            (startsWith (internal_name s) ''A'' \<longrightarrow>
               signal_quantity d s = Some VOLTAGE \<and> signal_unit d s = Some VOLT)"
    if "s \<in> set (all_signals d)" for s
    using data_inv_quantity [OF inv(3) that]
      init_signal_data_V [of "internal_name s" "sig_fixed_mq s"]
      init_signal_data_I [of "internal_name s" "sig_fixed_mq s"]
      init_signal_data_F [of "internal_name s" "sig_fixed_mq s"]
      init_signal_data_A [of "internal_name s" "sig_fixed_mq s"]
      init_signal_data_P1 [of "sig_fixed_mq s"]
    by auto
  show ?thesis using names each by blast
qed

text \<open>
  The theorem at a demo device with the analog channels \<open>V1\<close>, \<open>I1\<close>, \<open>F1\<close>, \<open>P1\<close>,
  \<open>A1\<close>.
\<close>

theorem signal_quantity_unit_by_name_witness:
  "\<exists>d. HardwareDevice
          \<lparr>vendor = ''X'', model = ''Y'', version = [], serial_number = [], connection_id = [],
           config_keys = [SR_CONF_DEMO_DEV],
           channels = [\<lparr>chan_index = 0, chan_type = SR_CHANNEL_ANALOG, chan_name = ''V1''\<rparr>,
                       \<lparr>chan_index = 1, chan_type = SR_CHANNEL_ANALOG, chan_name = ''I1''\<rparr>,
                       \<lparr>chan_index = 2, chan_type = SR_CHANNEL_ANALOG, chan_name = ''F1''\<rparr>,
                       \<lparr>chan_index = 3, chan_type = SR_CHANNEL_ANALOG, chan_name = ''P1''\<rparr>,
                       \<lparr>chan_index = 4, chan_type = SR_CHANNEL_ANALOG, chan_name = ''A1''\<rparr>],
           channel_groups = []\<rparr> = Inr d \<and>
        map internal_name (all_signals d) = [''V1'', ''I1'', ''F1'', ''P1'', ''A1''] \<and>
        map (signal_quantity d) (all_signals d) =
          [Some VOLTAGE, Some CURRENT, Some FREQUENCY, None, Some VOLTAGE] \<and>
        map (signal_unit d) (all_signals d) =
          [Some VOLT, Some AMPERE, Some HERTZ, None, Some VOLT]"
proof -
  let ?sr = "\<lparr>vendor = ''X'', model = ''Y'', version = [], serial_number = [], connection_id = [],
           config_keys = [SR_CONF_DEMO_DEV],
           channels = [\<lparr>chan_index = 0, chan_type = SR_CHANNEL_ANALOG, chan_name = ''V1''\<rparr>,
                       \<lparr>chan_index = 1, chan_type = SR_CHANNEL_ANALOG, chan_name = ''I1''\<rparr>,
                       \<lparr>chan_index = 2, chan_type = SR_CHANNEL_ANALOG, chan_name = ''F1''\<rparr>,
                       \<lparr>chan_index = 3, chan_type = SR_CHANNEL_ANALOG, chan_name = ''P1''\<rparr>,
                       \<lparr>chan_index = 4, chan_type = SR_CHANNEL_ANALOG, chan_name = ''A1''\<rparr>],
           channel_groups = []\<rparr>"
  have "case HardwareDevice ?sr of
          Inl e \<Rightarrow> False
        | Inr d \<Rightarrow>
            map (signal_quantity d) (all_signals d) =
              [Some VOLTAGE, Some CURRENT, Some FREQUENCY, None, Some VOLTAGE] \<and>
            map (signal_unit d) (all_signals d) =
              [Some VOLT, Some AMPERE, Some HERTZ, None, Some VOLT]"
    by (simp add: ctor_eval cong: eval_cong)
  then obtain d where d: "HardwareDevice ?sr = Inr d" and
    facts: "map (signal_quantity d) (all_signals d) =
              [Some VOLTAGE, Some CURRENT, Some FREQUENCY, None, Some VOLTAGE]"
      "map (signal_unit d) (all_signals d) =
              [Some VOLT, Some AMPERE, Some HERTZ, None, Some VOLT]"
    by (cases "HardwareDevice ?sr") simp_all
  note main = signal_quantity_unit_by_name [OF d]
  have names: "map internal_name (all_signals d) = [''V1'', ''I1'', ''F1'', ''P1'', ''A1'']"
    using main by (simp add: analog_channels_def)
  show ?thesis
    by (rule exI [of _ d]) (use names d facts in simp)
qed

text \<open>
  Claim C10. After construction the list of configurables is not empty: it holds one
  configurable for the whole device when the driver reports no channel group, and one per
  reported group, in the driver's order, otherwise. So \<^verbatim>\<open>feed_in_meta\<close> always finds a
  configurable at index 0 and returns normally on every packet.
\<close>

theorem configurables_nonempty_after_construction:
  assumes "HardwareDevice sr = Inr d"
  shows "configurables d \<noteq> [] \<and>
         configurables d =
           (if channel_groups sr = [] then [Configurable_device sr]
            else map (\<lambda>p. Configurable_group (snd p)) (channel_groups sr)) \<and>
         length (configurables d) =
           (if channel_groups sr = [] then 1 else length (channel_groups sr)) \<and>
         (\<forall>sr_meta :: (config_key \<times> 'a::zero gvariant) list.
            \<exists>emitted. feed_in_meta d sr_meta = Inr emitted)"
proof -
  have cf: "configurables d =
           (if channel_groups sr = [] then [Configurable_device sr]
            else map (\<lambda>p. Configurable_group (snd p)) (channel_groups sr))"
    by (rule HardwareDevice_invariants(7) [OF assms])
  then have ne: "configurables d \<noteq> []" by simp
  have len: "length (configurables d) =
           (if channel_groups sr = [] then 1 else length (channel_groups sr))"
    using cf by simp
  have "\<exists>emitted. feed_in_meta d sr_meta = Inr emitted"
    for sr_meta :: "(config_key \<times> 'a::zero gvariant) list"
    using feed_in_meta_nonempty [OF ne, of sr_meta] by simp
  then show ?thesis using cf ne len by blast
qed

text \<open>
  The theorem at a multimeter without channel groups and at a power supply with two.
\<close>

theorem configurables_nonempty_after_construction_witness:
  "(\<exists>d. HardwareDevice
          \<lparr>vendor = ''X'', model = ''M'', version = [], serial_number = [], connection_id = [],
           config_keys = [SR_CONF_MULTIMETER],
           channels = [\<lparr>chan_index = 0, chan_type = SR_CHANNEL_ANALOG, chan_name = ''P1''\<rparr>],
           channel_groups = []\<rparr> = Inr d \<and>
        length (configurables d) = 1 \<and>
        (\<exists>emitted. feed_in_meta d [(SR_CONF_ENABLED, GBoolean True :: int gvariant)] = Inr emitted)) \<and>
   (\<exists>d. HardwareDevice
          \<lparr>vendor = ''X'', model = ''S'', version = [], serial_number = [], connection_id = [],
           config_keys = [SR_CONF_POWER_SUPPLY],
           channels = [\<lparr>chan_index = 0, chan_type = SR_CHANNEL_ANALOG, chan_name = ''V1''\<rparr>,
                       \<lparr>chan_index = 1, chan_type = SR_CHANNEL_ANALOG, chan_name = ''V2''\<rparr>],
           channel_groups =
             [(''1'', \<lparr>cg_name = ''1'', cg_channels =
                  [\<lparr>chan_index = 0, chan_type = SR_CHANNEL_ANALOG, chan_name = ''V1''\<rparr>]\<rparr>),
              (''2'', \<lparr>cg_name = ''2'', cg_channels =
                  [\<lparr>chan_index = 1, chan_type = SR_CHANNEL_ANALOG, chan_name = ''V2''\<rparr>]\<rparr>)]\<rparr>
        = Inr d \<and>
        length (configurables d) = 2 \<and>
        (\<exists>emitted. feed_in_meta d [(SR_CONF_ENABLED, GBoolean True :: int gvariant)] = Inr emitted))"
proof -
  let ?m = "\<lparr>vendor = ''X'', model = ''M'', version = [], serial_number = [], connection_id = [],
           config_keys = [SR_CONF_MULTIMETER],
           channels = [\<lparr>chan_index = 0, chan_type = SR_CHANNEL_ANALOG, chan_name = ''P1''\<rparr>],
           channel_groups = []\<rparr>"
  let ?s = "\<lparr>vendor = ''X'', model = ''S'', version = [], serial_number = [], connection_id = [],
           config_keys = [SR_CONF_POWER_SUPPLY],
           channels = [\<lparr>chan_index = 0, chan_type = SR_CHANNEL_ANALOG, chan_name = ''V1''\<rparr>,
                       \<lparr>chan_index = 1, chan_type = SR_CHANNEL_ANALOG, chan_name = ''V2''\<rparr>],
           channel_groups =
             [(''1'', \<lparr>cg_name = ''1'', cg_channels =
                  [\<lparr>chan_index = 0, chan_type = SR_CHANNEL_ANALOG, chan_name = ''V1''\<rparr>]\<rparr>),
              (''2'', \<lparr>cg_name = ''2'', cg_channels =
                  [\<lparr>chan_index = 1, chan_type = SR_CHANNEL_ANALOG, chan_name = ''V2''\<rparr>]\<rparr>)]\<rparr>"
  have "case HardwareDevice ?m of Inl e \<Rightarrow> False | Inr d \<Rightarrow> True"
    by (simp add: ctor_eval cong: eval_cong)
  then obtain d1 where d1: "HardwareDevice ?m = Inr d1"
    by (cases "HardwareDevice ?m") simp_all
  have "case HardwareDevice ?s of Inl e \<Rightarrow> False | Inr d \<Rightarrow> True"
    by (simp add: ctor_eval cong: eval_cong)
  then obtain d2 where d2: "HardwareDevice ?s = Inr d2"
    by (cases "HardwareDevice ?s") simp_all
  note m1 = configurables_nonempty_after_construction [OF d1, where 'a = int]
  note m2 = configurables_nonempty_after_construction [OF d2, where 'a = int]
  have a: "\<exists>d. HardwareDevice ?m = Inr d \<and> length (configurables d) = 1 \<and>
        (\<exists>emitted. feed_in_meta d [(SR_CONF_ENABLED, GBoolean True :: int gvariant)] = Inr emitted)"
    by (rule exI [of _ d1]) (use m1 d1 in simp)
  have b: "\<exists>d. HardwareDevice ?s = Inr d \<and> length (configurables d) = 2 \<and>
        (\<exists>emitted. feed_in_meta d [(SR_CONF_ENABLED, GBoolean True :: int gvariant)] = Inr emitted)"
    by (rule exI [of _ d2]) (use m2 d2 in simp)
  from a b show ?thesis by (rule conjI)
qed

section \<open>Results on metadata packets\<close>

text \<open>
  Claim C6. On a device with at least one configurable, \<^verbatim>\<open>feed_in_meta\<close> returns
  normally; it emits exactly one signal for each entry of the packet whose key is in the
  table of recognized keys, in the order of the entries, each through the configurable at
  index 0; an entry with any other key emits nothing. The signal of an entry is the one of
  its key, for each of the thirteen recognized keys, and carries the value decoded from the
  entry's variant: the boolean of a boolean variant, the number of a double variant.
\<close>

theorem feed_in_meta_notifies_first_configurable:
  fixes sr_meta :: "(config_key \<times> 'a::zero gvariant) list" and v :: "'a gvariant" and x :: 'a
  assumes "configurables d \<noteq> []"
  shows "feed_in_meta d sr_meta =
           Inr (map (\<lambda>entry. (configurables d ! 0,
                                the (meta_entry_signal (fst entry) (snd entry))))
                  (filter (\<lambda>entry. fst entry \<in> set recognized_keys) sr_meta)) \<and>
         (\<forall>k w. k \<notin> set recognized_keys \<longrightarrow>
            meta_entry_signal k w = (None :: 'a config_signal option)) \<and>
         meta_entry_signal SR_CONF_ENABLED v =
           Some (enabled_changed (g_variant_get_boolean v)) \<and>
         meta_entry_signal SR_CONF_VOLTAGE_TARGET v =
           Some (voltage_target_changed (g_variant_get_double v)) \<and>
         meta_entry_signal SR_CONF_CURRENT_LIMIT v =
           Some (current_limit_changed (g_variant_get_double v)) \<and>
         meta_entry_signal SR_CONF_OVER_TEMPERATURE_PROTECTION v =
           Some (otp_enabled_changed (g_variant_get_boolean v)) \<and>
         meta_entry_signal SR_CONF_OVER_TEMPERATURE_PROTECTION_ACTIVE v =
           Some (otp_active_changed (g_variant_get_boolean v)) \<and>
         meta_entry_signal SR_CONF_OVER_VOLTAGE_PROTECTION_ENABLED v =
           Some (ovp_enabled_changed (g_variant_get_boolean v)) \<and>
         meta_entry_signal SR_CONF_OVER_VOLTAGE_PROTECTION_ACTIVE v =
           Some (ovp_active_changed (g_variant_get_boolean v)) \<and>
         meta_entry_signal SR_CONF_OVER_VOLTAGE_PROTECTION_THRESHOLD v =
           Some (ovp_threshold_changed (g_variant_get_double v)) \<and>
         meta_entry_signal SR_CONF_OVER_CURRENT_PROTECTION_ENABLED v =
           Some (ocp_enabled_changed (g_variant_get_boolean v)) \<and>
         meta_entry_signal SR_CONF_OVER_CURRENT_PROTECTION_ACTIVE v =
           Some (ocp_active_changed (g_variant_get_boolean v)) \<and>
         meta_entry_signal SR_CONF_OVER_CURRENT_PROTECTION_THRESHOLD v =
           Some (ocp_threshold_changed (g_variant_get_double v)) \<and>
         meta_entry_signal SR_CONF_UNDER_VOLTAGE_CONDITION v =
           Some (uvc_enabled_changed (g_variant_get_boolean v)) \<and>
         meta_entry_signal SR_CONF_UNDER_VOLTAGE_CONDITION_ACTIVE v =
           Some (uvc_active_changed (g_variant_get_boolean v)) \<and>
         g_variant_get_boolean (GBoolean b :: 'a gvariant) = b \<and>
         g_variant_get_double (GDouble x) = x \<and>
         g_variant_get_boolean (GDouble x) = False \<and>
         g_variant_get_boolean (GOther :: 'a gvariant) = False \<and>
         g_variant_get_double (GBoolean b) = (0 :: 'a) \<and>
         g_variant_get_double GOther = (0 :: 'a)"
proof -
  have emitted: "feed_in_meta d sr_meta =
           Inr (map (\<lambda>entry. (configurables d ! 0,
                                the (meta_entry_signal (fst entry) (snd entry))))
                  (filter (\<lambda>entry. fst entry \<in> set recognized_keys) sr_meta))"
    using assms by (rule feed_in_meta_nonempty)
  have ignored: "meta_entry_signal k w = (None :: 'a config_signal option)"
    if "k \<notin> set recognized_keys" for k w
    using that meta_entry_signal_recognized [of k w] by simp
  show ?thesis using emitted ignored by simp
qed

text \<open>
  The theorem at a power supply with two channel groups, on a packet with an entry for
  each recognized key and three entries with other keys: all thirteen signals go to the
  configurable of the first group, each with the value of its entry.
\<close>

theorem feed_in_meta_notifies_first_configurable_witness:
  "\<exists>d. HardwareDevice
          \<lparr>vendor = ''X'', model = ''S'', version = [], serial_number = [], connection_id = [],
           config_keys = [SR_CONF_POWER_SUPPLY],
           channels = [\<lparr>chan_index = 0, chan_type = SR_CHANNEL_ANALOG, chan_name = ''V1''\<rparr>,
                       \<lparr>chan_index = 1, chan_type = SR_CHANNEL_ANALOG, chan_name = ''V2''\<rparr>],
           channel_groups =
             [(''1'', \<lparr>cg_name = ''1'', cg_channels =
                  [\<lparr>chan_index = 0, chan_type = SR_CHANNEL_ANALOG, chan_name = ''V1''\<rparr>]\<rparr>),
              (''2'', \<lparr>cg_name = ''2'', cg_channels =
                  [\<lparr>chan_index = 1, chan_type = SR_CHANNEL_ANALOG, chan_name = ''V2''\<rparr>]\<rparr>)]\<rparr>
        = Inr d \<and>
      configurables d \<noteq> [] \<and>
      length (configurables d) = 2 \<and>
      feed_in_meta d
        [(SR_CONF_ENABLED, GBoolean True), (SR_CONF_OTHER 5, GOther),
         (SR_CONF_VOLTAGE_TARGET, GDouble (12 :: int)),
         (SR_CONF_UNDER_VOLTAGE_CONDITION_THRESHOLD, GDouble 3),
         (SR_CONF_CURRENT_LIMIT, GDouble 2),
         (SR_CONF_OVER_TEMPERATURE_PROTECTION, GBoolean True),
         (SR_CONF_OVER_TEMPERATURE_PROTECTION_ACTIVE, GBoolean False),
         (SR_CONF_OVER_VOLTAGE_PROTECTION_ENABLED, GBoolean True),
         (SR_CONF_OVER_VOLTAGE_PROTECTION_ACTIVE, GBoolean False),
         (SR_CONF_OVER_VOLTAGE_PROTECTION_THRESHOLD, GDouble 30),
         (SR_CONF_OVER_CURRENT_PROTECTION_ENABLED, GBoolean True),
         (SR_CONF_OVER_CURRENT_PROTECTION_ACTIVE, GBoolean True),
         (SR_CONF_OVER_CURRENT_PROTECTION_THRESHOLD, GDouble 5),
         (SR_CONF_UNDER_VOLTAGE_CONDITION, GBoolean False),
         (SR_CONF_UNDER_VOLTAGE_CONDITION_ACTIVE, GBoolean True),
         (SR_CONF_DEMO_DEV, GBoolean True)] =
      Inr [(configurables d ! 0, enabled_changed True),
           (configurables d ! 0, voltage_target_changed 12),
           (configurables d ! 0, current_limit_changed 2),
           (configurables d ! 0, otp_enabled_changed True),
           (configurables d ! 0, otp_active_changed False),
           (configurables d ! 0, ovp_enabled_changed True),
           (configurables d ! 0, ovp_active_changed False),
           (configurables d ! 0, ovp_threshold_changed 30),
           (configurables d ! 0, ocp_enabled_changed True),
           (configurables d ! 0, ocp_active_changed True),
           (configurables d ! 0, ocp_threshold_changed 5),
           (configurables d ! 0, uvc_enabled_changed False),
           (configurables d ! 0, uvc_active_changed True)] \<and>
      configurables d ! 0 =
        Configurable_group \<lparr>cg_name = ''1'', cg_channels =
                  [\<lparr>chan_index = 0, chan_type = SR_CHANNEL_ANALOG, chan_name = ''V1''\<rparr>]\<rparr>"
proof -
  let ?sr = "\<lparr>vendor = ''X'', model = ''S'', version = [], serial_number = [], connection_id = [],
           config_keys = [SR_CONF_POWER_SUPPLY],
           channels = [\<lparr>chan_index = 0, chan_type = SR_CHANNEL_ANALOG, chan_name = ''V1''\<rparr>,
                       \<lparr>chan_index = 1, chan_type = SR_CHANNEL_ANALOG, chan_name = ''V2''\<rparr>],
           channel_groups =
             [(''1'', \<lparr>cg_name = ''1'', cg_channels =
                  [\<lparr>chan_index = 0, chan_type = SR_CHANNEL_ANALOG, chan_name = ''V1''\<rparr>]\<rparr>),
              (''2'', \<lparr>cg_name = ''2'', cg_channels =
                  [\<lparr>chan_index = 1, chan_type = SR_CHANNEL_ANALOG, chan_name = ''V2''\<rparr>]\<rparr>)]\<rparr>"
  have "case HardwareDevice ?sr of
          Inl e \<Rightarrow> False
        | Inr d \<Rightarrow>
            configurables d =
              [Configurable_group \<lparr>cg_name = ''1'', cg_channels =
                  [\<lparr>chan_index = 0, chan_type = SR_CHANNEL_ANALOG, chan_name = ''V1''\<rparr>]\<rparr>,
               Configurable_group \<lparr>cg_name = ''2'', cg_channels =
                  [\<lparr>chan_index = 1, chan_type = SR_CHANNEL_ANALOG, chan_name = ''V2''\<rparr>]\<rparr>]"
    by (simp add: ctor_eval cong: eval_cong)
  then obtain d where d: "HardwareDevice ?sr = Inr d" and
    cf: "configurables d =
              [Configurable_group \<lparr>cg_name = ''1'', cg_channels =
                  [\<lparr>chan_index = 0, chan_type = SR_CHANNEL_ANALOG, chan_name = ''V1''\<rparr>]\<rparr>,
               Configurable_group \<lparr>cg_name = ''2'', cg_channels =
                  [\<lparr>chan_index = 1, chan_type = SR_CHANNEL_ANALOG, chan_name = ''V2''\<rparr>]\<rparr>]"
    by (cases "HardwareDevice ?sr") simp_all
  have ne: "configurables d \<noteq> []" using cf by simp
  note main = feed_in_meta_notifies_first_configurable
    [OF ne, of "[(SR_CONF_ENABLED, GBoolean True), (SR_CONF_OTHER 5, GOther),
         (SR_CONF_VOLTAGE_TARGET, GDouble (12 :: int)),
         (SR_CONF_UNDER_VOLTAGE_CONDITION_THRESHOLD, GDouble 3),
         (SR_CONF_CURRENT_LIMIT, GDouble 2),
         (SR_CONF_OVER_TEMPERATURE_PROTECTION, GBoolean True),
         (SR_CONF_OVER_TEMPERATURE_PROTECTION_ACTIVE, GBoolean False),
         (SR_CONF_OVER_VOLTAGE_PROTECTION_ENABLED, GBoolean True),
         (SR_CONF_OVER_VOLTAGE_PROTECTION_ACTIVE, GBoolean False),
         (SR_CONF_OVER_VOLTAGE_PROTECTION_THRESHOLD, GDouble 30),
         (SR_CONF_OVER_CURRENT_PROTECTION_ENABLED, GBoolean True),
         (SR_CONF_OVER_CURRENT_PROTECTION_ACTIVE, GBoolean True),
         (SR_CONF_OVER_CURRENT_PROTECTION_THRESHOLD, GDouble 5),
         (SR_CONF_UNDER_VOLTAGE_CONDITION, GBoolean False),
         (SR_CONF_UNDER_VOLTAGE_CONDITION_ACTIVE, GBoolean True),
         (SR_CONF_DEMO_DEV, GBoolean True)]"]
  show ?thesis
    by (rule exI [of _ d]) (use main d cf in \<open>simp add: recognized_keys_def\<close>)
qed

section \<open>Results on the lifecycle\<close>

text \<open>
  Claim C8. When the driver handle's open raises an error, \<^verbatim>\<open>open\<close> throws that error to
  its caller and leaves the device closed. Besides closing a session that was open before,
  all it has done is the call of the driver's open: the error handler is not called, no
  thread is spawned, the driver session is neither started nor run, and the acquisition
  state is not set to running.
\<close>

theorem open_failure_is_synchronous:
  "fst (open (Some e) d) = Some e \<and>
   device_open (snd (open (Some e) d)) = False \<and>
   aquisition_state (snd (open (Some e) d)) =
     (if device_open d then Stopped else aquisition_state d) \<and>
   trace (snd (open (Some e) d)) = trace d @ new_events d (snd (open (Some e) d)) \<and>
   filter (\<lambda>ev. is_error_report ev \<or> ev = ThreadSpawn \<or> ev = SessionStart \<or> ev = SessionRun)
     (new_events d (snd (open (Some e) d))) = []"
proof -
  have 1: "fst (open (Some e) d) = Some e"
    by (simp add: open_def Let_def)
  have 2: "device_open (snd (open (Some e) d)) = False \<and>
           aquisition_state (snd (open (Some e) d)) =
             (if device_open d then Stopped else aquisition_state d)"
    using close_state [of d] by (simp add: open_def log_event_def Let_def)
  have 3: "trace (snd (open (Some e) d)) = trace d @ new_events d (snd (open (Some e) d))"
    by (simp add: open_def close_def new_events_def log_event_def Let_def)
  have 4: "filter (\<lambda>ev. is_error_report ev \<or> ev = ThreadSpawn \<or> ev = SessionStart \<or> ev = SessionRun)
     (new_events d (snd (open (Some e) d))) = []"
    by (simp add: open_failure_events close_events)
  show ?thesis using 1 2 3 4 by simp
qed

text \<open>
  The theorem at a device that was open and acquiring, and at a new device.
\<close>

theorem open_failure_is_synchronous_witness:
  "fst (open (Some ''no such port'')
      (snd (open None (new_device
        \<lparr>vendor = ''X'', model = ''S'', version = [], serial_number = [], connection_id = [],
         config_keys = [SR_CONF_POWER_SUPPLY], channels = [], channel_groups = []\<rparr>))))
     = Some ''no such port'' \<and>
   new_events
     (snd (open None (new_device
        \<lparr>vendor = ''X'', model = ''S'', version = [], serial_number = [], connection_id = [],
         config_keys = [SR_CONF_POWER_SUPPLY], channels = [], channel_groups = []\<rparr>)))
     (snd (open (Some ''no such port'')
      (snd (open None (new_device
        \<lparr>vendor = ''X'', model = ''S'', version = [], serial_number = [], connection_id = [],
         config_keys = [SR_CONF_POWER_SUPPLY], channels = [], channel_groups = []\<rparr>)))))
     = [SessionRemoveDatafeedCallbacks, SessionStop, ThreadJoin, SessionRemoveDevices,
        SrDeviceClose, SrDeviceOpen] \<and>
   new_events
     (new_device
        \<lparr>vendor = ''X'', model = ''S'', version = [], serial_number = [], connection_id = [],
         config_keys = [SR_CONF_POWER_SUPPLY], channels = [], channel_groups = []\<rparr>)
     (snd (open (Some ''no such port'') (new_device
        \<lparr>vendor = ''X'', model = ''S'', version = [], serial_number = [], connection_id = [],
         config_keys = [SR_CONF_POWER_SUPPLY], channels = [], channel_groups = []\<rparr>)))
     = [SrDeviceOpen] \<and>
   aquisition_state
     (snd (open (Some ''no such port'') (new_device
        \<lparr>vendor = ''X'', model = ''S'', version = [], serial_number = [], connection_id = [],
         config_keys = [SR_CONF_POWER_SUPPLY], channels = [], channel_groups = []\<rparr>)))
     = Stopped"
  using open_failure_is_synchronous [of "''no such port''" "new_device
        \<lparr>vendor = ''X'', model = ''S'', version = [], serial_number = [], connection_id = [],
         config_keys = [SR_CONF_POWER_SUPPLY], channels = [], channel_groups = []\<rparr>"]
  by (simp add: open_def close_def new_events_def log_event_def new_device_def Let_def)

text \<open>
  Claim C1. The claim reads: when the session's start raises an error inside the
  acquisition task, the error is reported through the error handler and the task exits
  with the acquisition state stopped. On the source the handler is called and the task
  returns, and the acquisition state is not written on this path: it is what the task
  found. \<^verbatim>\<open>open\<close> sets the state to running after it has spawned the task, so a task that
  finds the state of a successful \<^verbatim>\<open>open\<close> and fails to start leaves it running.
\<close>

theorem start_failure_leaves_state_unchanged:
  "aquisition_state (aquisition_thread_proc (Some e) sr_run d) = aquisition_state d \<and>
   new_events d (aquisition_thread_proc (Some e) sr_run d) =
     [SessionStart, ErrorHandler e (aquisition_state d)] \<and>
   aquisition_state (snd (open None d)) = Running \<and>
   aquisition_state (aquisition_thread_proc (Some e) sr_run (snd (open None d))) = Running"
  by (simp add: aquisition_thread_proc_def open_def error_handler_def log_event_def
        new_events_def Let_def)

text \<open>
  Claim C7, as the source has it. When packet handling flagged an out-of-memory condition
  and the session's run loop returns without an error, the task does, in this order:
  start the session, run it (packets are handled inside, and the handler is not called
  there), free unused memory, and call the error handler once, with the out-of-memory
  message, the acquisition state being stopped. When the run loop raises a driver error,
  whether or not the condition was flagged, the task calls the error handler once, with
  that error (the state still running at the call), sets the state to stopped and returns:
  the out-of-memory condition is not reported. When the run loop returns without an error
  and nothing was flagged, the handler is not called.
\<close>

theorem out_of_memory_reported_once_after_stop:
  "(run_error sr_run = None \<and> run_out_of_memory sr_run \<longrightarrow>
      new_events d (aquisition_thread_proc None sr_run d) =
        [SessionStart, SessionRun, FreeUnusedMemory,
         ErrorHandler out_of_memory_message Stopped] \<and>
      aquisition_state (aquisition_thread_proc None sr_run d) = Stopped) \<and>
   (\<forall>e. run_error sr_run = Some e \<longrightarrow>
      new_events d (aquisition_thread_proc None sr_run d) =
        [SessionStart, SessionRun, ErrorHandler e Running] \<and>
      aquisition_state (aquisition_thread_proc None sr_run d) = Stopped \<and>
      out_of_memory (aquisition_thread_proc None sr_run d) = run_out_of_memory sr_run) \<and>
   (run_error sr_run = None \<and> \<not> run_out_of_memory sr_run \<longrightarrow>
      new_events d (aquisition_thread_proc None sr_run d) =
        [SessionStart, SessionRun, FreeUnusedMemory] \<and>
      aquisition_state (aquisition_thread_proc None sr_run d) = Stopped)"
  by (simp add: aquisition_thread_proc_def error_handler_def log_event_def
        new_events_def Let_def)

text \<open>
  The theorem at a task started by a successful \<^verbatim>\<open>open\<close> on a new device, for the three
  outcomes of the run loop.
\<close>

theorem out_of_memory_reported_once_after_stop_witness:
  "run_error \<lparr>run_error = None, run_out_of_memory = True\<rparr> = None \<and>
   run_out_of_memory \<lparr>run_error = None, run_out_of_memory = True\<rparr> \<and>
   new_events
     (snd (open None (new_device
        \<lparr>vendor = ''X'', model = ''S'', version = [], serial_number = [], connection_id = [],
         config_keys = [SR_CONF_POWER_SUPPLY], channels = [], channel_groups = []\<rparr>)))
     (aquisition_thread_proc None \<lparr>run_error = None, run_out_of_memory = True\<rparr>
       (snd (open None (new_device
        \<lparr>vendor = ''X'', model = ''S'', version = [], serial_number = [], connection_id = [],
         config_keys = [SR_CONF_POWER_SUPPLY], channels = [], channel_groups = []\<rparr>)))) =
     [SessionStart, SessionRun, FreeUnusedMemory,
      ErrorHandler ''Out of memory, acquisition stopped.'' Stopped] \<and>
   run_error \<lparr>run_error = Some ''device lost'', run_out_of_memory = True\<rparr> = Some ''device lost'' \<and>
   new_events
     (snd (open None (new_device
        \<lparr>vendor = ''X'', model = ''S'', version = [], serial_number = [], connection_id = [],
         config_keys = [SR_CONF_POWER_SUPPLY], channels = [], channel_groups = []\<rparr>)))
     (aquisition_thread_proc None \<lparr>run_error = Some ''device lost'', run_out_of_memory = True\<rparr>
       (snd (open None (new_device
        \<lparr>vendor = ''X'', model = ''S'', version = [], serial_number = [], connection_id = [],
         config_keys = [SR_CONF_POWER_SUPPLY], channels = [], channel_groups = []\<rparr>)))) =
     [SessionStart, SessionRun, ErrorHandler ''device lost'' Running] \<and>
   run_error \<lparr>run_error = None, run_out_of_memory = False\<rparr> = None \<and>
   run_out_of_memory \<lparr>run_error = None, run_out_of_memory = False\<rparr> = False \<and>
   new_events
     (snd (open None (new_device
        \<lparr>vendor = ''X'', model = ''S'', version = [], serial_number = [], connection_id = [],
         config_keys = [SR_CONF_POWER_SUPPLY], channels = [], channel_groups = []\<rparr>)))
     (aquisition_thread_proc None \<lparr>run_error = None, run_out_of_memory = False\<rparr>
       (snd (open None (new_device
        \<lparr>vendor = ''X'', model = ''S'', version = [], serial_number = [], connection_id = [],
         config_keys = [SR_CONF_POWER_SUPPLY], channels = [], channel_groups = []\<rparr>)))) =
     [SessionStart, SessionRun, FreeUnusedMemory]"
  using out_of_memory_reported_once_after_stop
    [of "\<lparr>run_error = None, run_out_of_memory = True\<rparr>"
        "snd (open None (new_device
        \<lparr>vendor = ''X'', model = ''S'', version = [], serial_number = [], connection_id = [],
         config_keys = [SR_CONF_POWER_SUPPLY], channels = [], channel_groups = []\<rparr>))"]
    out_of_memory_reported_once_after_stop
    [of "\<lparr>run_error = Some ''device lost'', run_out_of_memory = True\<rparr>"
        "snd (open None (new_device
        \<lparr>vendor = ''X'', model = ''S'', version = [], serial_number = [], connection_id = [],
         config_keys = [SR_CONF_POWER_SUPPLY], channels = [], channel_groups = []\<rparr>))"]
    out_of_memory_reported_once_after_stop
    [of "\<lparr>run_error = None, run_out_of_memory = False\<rparr>"
        "snd (open None (new_device
        \<lparr>vendor = ''X'', model = ''S'', version = [], serial_number = [], connection_id = [],
         config_keys = [SR_CONF_POWER_SUPPLY], channels = [], channel_groups = []\<rparr>))"]
  by (simp add: out_of_memory_message_def)

text \<open>
  Claim C7 as stated has the out-of-memory condition reported whenever it was flagged.
  When the run loop raises an error after the condition was flagged, the task reports the
  driver's error (the state still running at that call) and returns: the out-of-memory
  condition stays flagged and is not reported.
\<close>

theorem out_of_memory_unreported_when_run_fails:
  "out_of_memory
     (aquisition_thread_proc None \<lparr>run_error = Some ''device lost'', run_out_of_memory = True\<rparr>
       (snd (open None (new_device
        \<lparr>vendor = ''X'', model = ''S'', version = [], serial_number = [], connection_id = [],
         config_keys = [SR_CONF_POWER_SUPPLY], channels = [], channel_groups = []\<rparr>)))) \<and>
   filter is_error_report
     (trace
       (aquisition_thread_proc None \<lparr>run_error = Some ''device lost'', run_out_of_memory = True\<rparr>
         (snd (open None (new_device
          \<lparr>vendor = ''X'', model = ''S'', version = [], serial_number = [], connection_id = [],
           config_keys = [SR_CONF_POWER_SUPPLY], channels = [], channel_groups = []\<rparr>))))) =
     [ErrorHandler ''device lost'' Running]"
  by (simp add: aquisition_thread_proc_def open_def error_handler_def log_event_def
        new_device_def Let_def)

end
